theory Spec2Isabelle
  imports Main "HOL-Library.Word" "HOL-Library.AList"
begin

unbundle bit_operations_syntax

chapter \<open>The model: event-ingestion store and durable config layer\<close>

text \<open>
  A shallow embedding of the parts of the bot's core that its specification makes
  testable statements about: the identity normalizer \<open>decodeJid\<close>, the per-chat message
  window of \<open>conn.pushMessage\<close>, the \<open>messages.upsert\<close>, \<open>chats.delete\<close> and
  \<open>blocklist.update\<close> handlers of the store binding, and the durable config layer
  (\<open>encodeMeta\<close>, \<open>decodeMeta\<close>, \<open>RowCache\<close>, the row proxy and the meta interface).

  JavaScript strings are modelled as \<open>string\<close>; values that the source treats as
  ``falsy'' (\<open>undefined\<close>, \<open>null\<close>, the empty string) are written out at each test.
\<close>

section \<open>Identity normalizer\<close>

text \<open>The class \<open>\d\<close> (equally \<open>[0-9]\<close>) of the source's regular expressions.\<close>

definition is_digit :: "char \<Rightarrow> bool" where
  "is_digit c \<longleftrightarrow> c \<in> set ''0123456789''"

text \<open>
  \<open>device_at s\<close>: the regular expression \<open>/:\d+@/\<close> matches at the very start of \<open>s\<close>.
  The digit run is taken greedily; giving digits back cannot help, since the character
  after a shorter run is a digit and not \<open>@\<close>.
\<close>

definition device_at :: "string \<Rightarrow> bool" where
  "device_at s =
     (case s of
        [] \<Rightarrow> False
      | c # cs \<Rightarrow>
          c = CHR '':'' \<and> takeWhile is_digit cs \<noteq> [] \<and>
          (case dropWhile is_digit cs of [] \<Rightarrow> False | d # _ \<Rightarrow> d = CHR ''@''))"

text \<open>Whether \<open>/:\d+@/\<close> matches anywhere in the string.\<close>

fun has_device :: "string \<Rightarrow> bool" where
  "has_device [] = False"
| "has_device (c # cs) = (device_at (c # cs) \<or> has_device cs)"

text \<open>
  \<open>raw.replace(/:\d+@/, "@")\<close>: the expression has no \<open>g\<close> flag, so only the leftmost
  match is replaced; the text after the match is kept as it is.
\<close>

fun replace_device :: "string \<Rightarrow> string" where
  "replace_device [] = []"
| "replace_device (c # cs) =
     (if device_at (c # cs) then dropWhile is_digit cs else c # replace_device cs)"

text \<open>
  \<open>decodeJid\<close>. The argument is \<open>None\<close> for \<open>null\<close>/\<open>undefined\<close>; the empty string is
  falsy and also yields \<open>null\<close>. (A truthy non-string argument is returned unchanged by
  the source; the argument type here admits strings only.)
\<close>

definition decodeJid :: "string option \<Rightarrow> string option" where
  "decodeJid raw =
     (case raw of
        None \<Rightarrow> None
      | Some r \<Rightarrow>
          if r = [] then None
          else
            let cleaned = replace_device r in
            Some (if CHR ''@'' \<in> set cleaned then cleaned
                  else if cleaned \<noteq> [] \<and> list_all is_digit cleaned
                       then cleaned @ ''@s.whatsapp.net''
                       else cleaned))"

section \<open>Objects and their key order\<close>

text \<open>
  The own properties of a plain JavaScript object with string keys, in the order they
  were created (no key occurs twice). Writing an own property replaces the value of a
  present key in place and appends a new key (\<open>AList.update\<close>); \<open>delete obj[k]\<close>
  removes the key (\<open>AList.delete\<close>).
\<close>

type_synonym 'v js_object = "(string \<times> 'v) list"

text \<open>The number that a string of decimal digits denotes.\<close>

definition digits_value :: "string \<Rightarrow> int" where
  "digits_value s = foldl (\<lambda>n c. 10 * n + (of_char c - 48)) 0 s"

text \<open>
  An array index is the canonical decimal numeral of an integer from 0 to \<open>2^32 - 2\<close>.
\<close>

definition is_array_index :: "string \<Rightarrow> bool" where
  "is_array_index s \<longleftrightarrow>
     s \<noteq> [] \<and> list_all is_digit s \<and> (s = ''0'' \<or> hd s \<noteq> CHR ''0'')
     \<and> digits_value s < 4294967295"

text \<open>
  \<open>Object.keys\<close>: the keys that are array indices first, in ascending numeric order,
  then the other keys in creation order.
\<close>

definition Object_keys :: "'v js_object \<Rightarrow> string list" where
  "Object_keys obj =
     (let ks = map fst obj in
      sort_key digits_value (filter is_array_index ks)
      @ filter (\<lambda>k. \<not> is_array_index k) ks)"

section \<open>Entities\<close>

text \<open>
  The content object \<open>msg.message\<close> maps message kinds to payloads. Of a payload the
  code reads \<open>groupId\<close> (of a sender-key distribution) and \<open>contextInfo\<close>; the rest is
  carried as \<open>body\<close>. Of a context it reads the chat and participant of the quoted
  message, its identifier \<open>stanzaId\<close> and its content \<open>quotedMessage\<close>. An absent
  property is \<open>None\<close>.
\<close>

datatype payload =
  Payload (body: string) (groupId: "string option") (contextInfo: "context_info option")
and context_info =
  Context (ctx_remoteJid: "string option") (ctx_participant: "string option")
    (stanzaId: "string option") (quotedMessage: "(string \<times> payload) list option")

text \<open>
  The stub type of a message: \<open>WAMessageStubType.CIPHERTEXT\<close> or another non-zero
  member of the library's enumeration. The value 0 is falsy and differs from
  \<open>CIPHERTEXT\<close>, so every test of the modelled code treats it as an absent stub type;
  it is modelled as \<open>None\<close>.
\<close>

datatype stub = CIPHERTEXT | OtherStub

text \<open>
  A message object, with the properties the modelled code reads: the fields of
  \<open>msg.key\<close> (the key itself is taken to be present), \<open>participant\<close>, \<open>pushName\<close>, the
  timestamp, the stub type and the content. \<open>key_fromMe\<close> is the truthiness of
  \<open>key.fromMe\<close>. A message object has no other own property.
\<close>

record wa_message =
  key_remoteJid :: "string option"
  key_id :: "string option"
  key_fromMe :: bool
  key_participant :: "string option"
  participant :: "string option"
  pushName :: "string option"
  messageTimestamp :: "int option"
  messageStubType :: "stub option"
  message :: "payload js_object option"

text \<open>
  The object \<open>chat.messages\<close>: its own properties and its prototype. The prototype is
  \<open>Object.prototype\<close> (\<open>None\<close>) until an assignment to the key \<open>__proto__\<close> replaces it
  by the assigned message object.
\<close>

record message_map =
  own :: "wa_message js_object"
  proto :: "wa_message option"

text \<open>The group metadata that \<open>conn.groupMetadata\<close> resolves to; the code reads its subject.\<close>

datatype group_metadata = GroupMetadata (md_subject: "string option")

text \<open>
  A chat entity, with the properties the modelled code reads or writes. (The modelled
  code passes any further property on untouched.)
\<close>

record chat =
  chat_id :: string
  conversationTimestamp :: "int option"
  isChats :: "bool option"
  unreadCount :: "int option"
  name :: "string option"
  subject :: "string option"
  metadata :: "group_metadata option"
  messages :: "message_map option"

text \<open>The object literal \<open>{ id }\<close>.\<close>

definition chat_with_id :: "string \<Rightarrow> chat" where
  "chat_with_id jid =
     \<lparr>chat_id = jid, conversationTimestamp = None, isChats = None, unreadCount = None,
      name = None, subject = None, metadata = None, messages = None\<rparr>"

datatype entity = Chat chat | Message wa_message | Blocklist "string list"

datatype priority = CORE | AUX | NOISE

section \<open>Entity store\<close>

text \<open>
  Modelled from the spec: the class \<open>MemoryStore\<close> of \<open>store/core.js\<close>, which is imported
  by the store binding but is not among the sources. The specification gives it
  \<open>get\<close> (a miss is \<open>null\<close>), \<open>del\<close>, \<open>keys(pattern)\<close> (a glob-style match over the key
  space), \<open>atomicSet(key, value, kind)\<close> (after it, \<open>get\<close> of the key returns the value
  written; the write is recorded in the priority event queue under the tier of its
  kind) and the event queue filled by \<open>enqueueEvent\<close>.
\<close>

record MemoryStore =
  entries :: "(string \<times> entity) list"
  queue :: "(string \<times> priority) list"

text \<open>Modelled from the spec: \<open>MemoryStore.get\<close>.\<close>

definition MemoryStore_get :: "MemoryStore \<Rightarrow> string \<Rightarrow> entity option" where
  "MemoryStore_get s k = map_of (entries s) k"

text \<open>
  Modelled from the spec: the tier of an entity kind. Presence is auxiliary; the other
  kinds that \<open>atomicSet\<close> is called with are core.
\<close>

definition kind_tier :: "string \<Rightarrow> priority" where
  "kind_tier kind = (if kind = ''presence'' then AUX else CORE)"

text \<open>Modelled from the spec: \<open>MemoryStore.atomicSet\<close>.\<close>

definition MemoryStore_atomicSet :: "MemoryStore \<Rightarrow> string \<Rightarrow> entity \<Rightarrow> string \<Rightarrow> MemoryStore" where
  "MemoryStore_atomicSet s k v kind =
     s\<lparr>entries := AList.update k v (entries s), queue := queue s @ [(kind, kind_tier kind)]\<rparr>"

text \<open>Modelled from the spec: \<open>MemoryStore.del\<close>.\<close>

definition MemoryStore_del :: "MemoryStore \<Rightarrow> string \<Rightarrow> MemoryStore" where
  "MemoryStore_del s k = s\<lparr>entries := AList.delete k (entries s)\<rparr>"

text \<open>
  Modelled from the spec: the glob match of \<open>MemoryStore.keys\<close>, where \<open>*\<close> stands for
  any run of characters and every other character for itself.
\<close>

fun glob_match :: "string \<Rightarrow> string \<Rightarrow> bool" where
  "glob_match [] s = (s = [])"
| "glob_match (p # ps) [] = (p = CHR ''*'' \<and> glob_match ps [])"
| "glob_match (p # ps) (c # cs) =
     (if p = CHR ''*'' then glob_match ps (c # cs) \<or> glob_match (p # ps) cs
      else p = c \<and> glob_match ps cs)"

text \<open>Modelled from the spec: \<open>MemoryStore.keys\<close>.\<close>

definition MemoryStore_keys :: "MemoryStore \<Rightarrow> string \<Rightarrow> string list" where
  "MemoryStore_keys s pattern = filter (glob_match pattern) (map fst (entries s))"

text \<open>Modelled from the spec: \<open>MemoryStore.enqueueEvent\<close>.\<close>

definition enqueueEvent :: "MemoryStore \<Rightarrow> string \<Rightarrow> priority \<Rightarrow> MemoryStore" where
  "enqueueEvent s event tier = s\<lparr>queue := queue s @ [(event, tier)]\<rparr>"

section \<open>Store binding: accessors\<close>

definition REDIS_PREFIX :: string where
  "REDIS_PREFIX = ''o3din:chat:''"

definition REDIS_MESSAGE_PREFIX :: string where
  "REDIS_MESSAGE_PREFIX = ''o3din:message:''"

definition REDIS_BLOCKLIST_PREFIX :: string where
  "REDIS_BLOCKLIST_PREFIX = ''o3din:blocklist:''"

text \<open>
  The accessors read an entity of the kind that is written under their prefix. (The
  prefixes differ, so an entry under one prefix is never written by the accessor of
  another; an entry of another kind is treated as a miss.)
\<close>

definition getChat :: "MemoryStore \<Rightarrow> string \<Rightarrow> chat option" where
  "getChat s jid =
     (case MemoryStore_get s (REDIS_PREFIX @ jid) of Some (Chat c) \<Rightarrow> Some c | _ \<Rightarrow> None)"

definition setChat :: "MemoryStore \<Rightarrow> string \<Rightarrow> chat \<Rightarrow> MemoryStore" where
  "setChat s jid data = MemoryStore_atomicSet s (REDIS_PREFIX @ jid) (Chat data) ''chat''"

definition deleteChat :: "MemoryStore \<Rightarrow> string \<Rightarrow> MemoryStore" where
  "deleteChat s jid = MemoryStore_del s (REDIS_PREFIX @ jid)"

definition getMessage :: "MemoryStore \<Rightarrow> string \<Rightarrow> string \<Rightarrow> wa_message option" where
  "getMessage s chatId messageId =
     (case MemoryStore_get s (REDIS_MESSAGE_PREFIX @ chatId @ '':'' @ messageId) of
        Some (Message m) \<Rightarrow> Some m
      | _ \<Rightarrow> None)"

definition setMessage :: "MemoryStore \<Rightarrow> string \<Rightarrow> string \<Rightarrow> wa_message \<Rightarrow> MemoryStore" where
  "setMessage s chatId messageId data =
     MemoryStore_atomicSet s (REDIS_MESSAGE_PREFIX @ chatId @ '':'' @ messageId)
       (Message data) ''message''"

text \<open>\<open>getBlocklist\<close>: \<open>memoryStore.get(key) || []\<close>.\<close>

definition getBlocklist :: "MemoryStore \<Rightarrow> string list" where
  "getBlocklist s =
     (case MemoryStore_get s (REDIS_BLOCKLIST_PREFIX @ ''list'') of
        Some (Blocklist l) \<Rightarrow> l
      | _ \<Rightarrow> [])"

definition setBlocklist :: "MemoryStore \<Rightarrow> string list \<Rightarrow> MemoryStore" where
  "setBlocklist s blocklist =
     MemoryStore_atomicSet s (REDIS_BLOCKLIST_PREFIX @ ''list'') (Blocklist blocklist) ''blocklist''"

section \<open>Store binding: event handlers\<close>

text \<open>
  The body of the loop of the \<open>messages.upsert\<close> handler, for one message. A missing or
  empty \<open>remoteJid\<close> or \<open>id\<close> is falsy and the message is skipped, as is a message of the
  status broadcast. \<open>(chat.unreadCount || 0) + 1\<close> counts from 0 when there is no count.
\<close>

definition upsert_message :: "MemoryStore \<Rightarrow> wa_message \<Rightarrow> MemoryStore" where
  "upsert_message s msg =
     (case (key_remoteJid msg, key_id msg) of
        (Some chatId, Some messageId) \<Rightarrow>
          if chatId = [] \<or> messageId = [] \<or> chatId = ''status@broadcast'' then s
          else
            let s1 = setMessage s chatId messageId msg;
                chat0 = (case getChat s1 chatId of
                           Some c \<Rightarrow> c
                         | None \<Rightarrow> chat_with_id chatId);
                chat1 = chat0\<lparr>conversationTimestamp := messageTimestamp msg,
                              isChats := Some True\<rparr>;
                chat2 = (if \<not> key_fromMe msg
                         then chat1\<lparr>unreadCount :=
                                 Some ((case unreadCount chat1 of None \<Rightarrow> 0 | Some n \<Rightarrow> n) + 1)\<rparr>
                         else chat1)
            in setChat s1 chatId chat2
      | _ \<Rightarrow> s)"

text \<open>The \<open>messages.upsert\<close> handler: the event is queued, then each message is handled.\<close>

definition messages_upsert :: "MemoryStore \<Rightarrow> wa_message list \<Rightarrow> MemoryStore" where
  "messages_upsert s msgs = foldl upsert_message (enqueueEvent s ''messages.upsert'' CORE) msgs"

text \<open>
  The \<open>chats.delete\<close> handler: for each identifier of the event the chat entity is
  deleted, then every message key that matches \<open>o3din:message:<id>:*\<close>.
\<close>

definition delete_chat_and_messages :: "MemoryStore \<Rightarrow> string \<Rightarrow> MemoryStore" where
  "delete_chat_and_messages s ident =
     (let s1 = deleteChat s ident;
          msgKeys = MemoryStore_keys s1 (REDIS_MESSAGE_PREFIX @ ident @ '':*'')
      in foldl MemoryStore_del s1 msgKeys)"

definition chats_delete :: "MemoryStore \<Rightarrow> string list \<Rightarrow> MemoryStore" where
  "chats_delete s deletions =
     foldl delete_chat_and_messages (enqueueEvent s ''chats.delete'' NOISE) deletions"

text \<open>
  The \<open>blocklist.update\<close> handler. For \<open>add\<close>, each identifier that the list does not
  include yet is pushed onto it; for \<open>remove\<close>, the identifiers of the event are
  filtered out; for any other type the list is written back as it was.
\<close>

definition blocklist_add :: "string list \<Rightarrow> string list \<Rightarrow> string list" where
  "blocklist_add existing blocklist =
     foldl (\<lambda>acc jid. if jid \<in> set acc then acc else acc @ [jid]) existing blocklist"

definition blocklist_update :: "MemoryStore \<Rightarrow> string list \<Rightarrow> string \<Rightarrow> MemoryStore" where
  "blocklist_update s blocklist type =
     (let s0 = enqueueEvent s ''blocklist.update'' CORE;
          existing = getBlocklist s0
      in if type = ''add'' then setBlocklist s0 (blocklist_add existing blocklist)
         else if type = ''remove''
              then setBlocklist s0 (filter (\<lambda>jid. jid \<notin> set blocklist) existing)
              else setBlocklist s0 existing)"

section \<open>\<open>pushMessage\<close>\<close>

subsection \<open>Truthiness and the small helpers\<close>

text \<open>A string that may be absent is truthy when it is present and not empty.\<close>

definition truthy :: "string option \<Rightarrow> bool" where
  "truthy x = (case x of None \<Rightarrow> False | Some s \<Rightarrow> s \<noteq> [])"

text \<open>\<open>a || b\<close> on such strings.\<close>

definition js_or :: "string option \<Rightarrow> string option \<Rightarrow> string option" where
  "js_or a b = (if truthy a then a else b)"

text \<open>\<open>s.endsWith(suf)\<close>.\<close>

definition endsWith :: "string \<Rightarrow> string \<Rightarrow> bool" where
  "endsWith s suf \<longleftrightarrow> length suf \<le> length s \<and> drop (length s - length suf) s = suf"

text \<open>\<open>isGroupJid\<close> and \<open>isStatusJid\<close> on a string.\<close>

definition isGroupJid :: "string \<Rightarrow> bool" where
  "isGroupJid ident \<longleftrightarrow> ident \<noteq> [] \<and> endsWith ident ''@g.us''"

definition isStatusJid :: "string \<Rightarrow> bool" where
  "isStatusJid ident \<longleftrightarrow> ident = [] \<or> ident = ''status@broadcast''"

text \<open>
  What the task takes from outside the modelled code: the bot's own identifier
  \<open>conn.user?.lid\<close>; the library's \<open>areJidsSameUser\<close>; the outcome of the network call
  \<open>conn.groupMetadata\<close> (\<open>None\<close> when it fails); and whether \<open>MemoryStore.get\<close> hands out
  the stored object itself, so that changing it changes what is stored, or a copy
  (the class is not among the sources, and the task behaves differently in one place).
\<close>

record conn_env =
  user_lid :: "string option"
  areJidsSameUser :: "string \<Rightarrow> string \<Rightarrow> bool"
  groupMetadata :: "string \<Rightarrow> group_metadata option"
  get_shares :: bool

subsection \<open>The \<open>messages\<close> object\<close>

text \<open>
  The names that \<open>Object.prototype\<close> answers with a truthy value: its methods, and the
  accessor \<open>__proto__\<close>.
\<close>

definition Object_prototype_names :: "string list" where
  "Object_prototype_names =
     [''constructor'', ''__defineGetter__'', ''__defineSetter__'', ''hasOwnProperty'',
      ''__lookupGetter__'', ''__lookupSetter__'', ''isPrototypeOf'', ''propertyIsEnumerable'',
      ''toString'', ''valueOf'', ''__proto__'', ''toLocaleString'']"

text \<open>Whether a message object answers a property name with a truthy value of its own.\<close>

definition message_property_truthy :: "wa_message \<Rightarrow> string \<Rightarrow> bool" where
  "message_property_truthy m k \<longleftrightarrow>
     k = ''key''
     \<or> k = ''message'' \<and> message m \<noteq> None
     \<or> k = ''messageTimestamp'' \<and> (case messageTimestamp m of None \<Rightarrow> False | Some n \<Rightarrow> n \<noteq> 0)
     \<or> k = ''messageStubType'' \<and> messageStubType m \<noteq> None
     \<or> k = ''pushName'' \<and> truthy (pushName m)
     \<or> k = ''participant'' \<and> truthy (participant m)"

text \<open>
  Whether \<open>messages[k]\<close> is truthy: an own property is a message object, hence truthy;
  otherwise the prototype chain answers.
\<close>

definition has_truthy :: "message_map \<Rightarrow> string \<Rightarrow> bool" where
  "has_truthy mm k \<longleftrightarrow>
     k \<in> fst ` set (own mm)
     \<or> (case proto mm of None \<Rightarrow> False | Some m \<Rightarrow> message_property_truthy m k)
     \<or> k \<in> set Object_prototype_names"

text \<open>
  \<open>messages[k] = v\<close>: the key \<open>__proto__\<close> is the prototype accessor, so the assignment
  replaces the prototype and creates no own property; any other key is written as an
  own property.
\<close>

definition assign_message :: "message_map \<Rightarrow> string \<Rightarrow> wa_message \<Rightarrow> message_map" where
  "assign_message mm k v =
     (if k = ''__proto__'' then mm\<lparr>proto := Some v\<rparr>
      else mm\<lparr>own := AList.update k v (own mm)\<rparr>)"

text \<open>The object \<open>{}\<close>, and \<open>chat.messages ||= {}\<close>.\<close>

definition empty_messages :: message_map where
  "empty_messages = \<lparr>own = [], proto = None\<rparr>"

definition messages_or_empty :: "chat \<Rightarrow> message_map" where
  "messages_or_empty c = (case messages c of None \<Rightarrow> empty_messages | Some mm \<Rightarrow> mm)"

text \<open>
  The trimming loop of the message window: above 20 keys, the keys \<open>msgKeys[0]\<close> up to
  \<open>msgKeys[length - 16]\<close> are deleted, which leaves 15.
\<close>

definition trim_messages :: "wa_message js_object \<Rightarrow> wa_message js_object" where
  "trim_messages msgs =
     (let msgKeys = Object_keys msgs in
      if length msgKeys > 20
      then foldl (\<lambda>obj k. AList.delete k obj) msgs (take (length msgKeys - 15) msgKeys)
      else msgs)"

text \<open>The trimming loop of the quoted messages: above 30 keys, all but 20 are deleted.\<close>

definition trim_quoted :: "wa_message js_object \<Rightarrow> wa_message js_object" where
  "trim_quoted msgs =
     (let msgKeys = Object_keys msgs in
      if length msgKeys > 30
      then foldl (\<lambda>obj k. AList.delete k obj) msgs (take (length msgKeys - 20) msgKeys)
      else msgs)"

subsection \<open>The steps of a task\<close>

text \<open>
  The kind of a message: the first key of the content other than the two protocol keys;
  when there is none, or the one found is the empty string (which is falsy), the last
  key. \<open>None\<close> when the content has no key at all.
\<close>

definition message_type :: "wa_message \<Rightarrow> string option" where
  "message_type m =
     (let mtypeKeys = Object_keys (case message m of None \<Rightarrow> [] | Some obj \<Rightarrow> obj) in
      if mtypeKeys = [] then None
      else Some (case find (\<lambda>k. k \<noteq> ''senderKeyDistributionMessage''
                               \<and> k \<noteq> ''messageContextInfo'') mtypeKeys of
                   None \<Rightarrow> last mtypeKeys
                 | Some k \<Rightarrow> if k = [] then last mtypeKeys else k))"

text \<open>\<open>msgObj[k]\<close> for a key of the content.\<close>

definition content_payload :: "wa_message \<Rightarrow> string \<Rightarrow> payload option" where
  "content_payload m k = (case message m of None \<Rightarrow> None | Some obj \<Rightarrow> map_of obj k)"

text \<open>
  The chat of a message:
  \<open>decodeJid(key.remoteJid || msgObj.senderKeyDistributionMessage?.groupId || "")\<close>.
\<close>

definition message_chat :: "wa_message \<Rightarrow> string option" where
  "message_chat m =
     decodeJid
       (js_or (key_remoteJid m)
          (js_or (case content_payload m ''senderKeyDistributionMessage'' of
                    None \<Rightarrow> None
                  | Some p \<Rightarrow> groupId p)
             (Some [])))"

text \<open>
  The group metadata is fetched for a group chat that has none; a failed fetch is
  swallowed.
\<close>

definition fetch_metadata :: "conn_env \<Rightarrow> string \<Rightarrow> chat \<Rightarrow> chat" where
  "fetch_metadata env chatJid chatData =
     (if isGroupJid chatJid \<and> metadata chatData = None
      then (case groupMetadata env chatJid of
              None \<Rightarrow> chatData
            | Some md \<Rightarrow> chatData\<lparr>subject := md_subject md, metadata := Some md\<rparr>)
      else chatData)"

text \<open>
  The context of the message when it quotes another message: \<open>quotedMessage\<close> and a
  truthy \<open>stanzaId\<close> are there.
\<close>

definition quoting_context :: "wa_message \<Rightarrow> string \<Rightarrow> context_info option" where
  "quoting_context m mtype =
     (case content_payload m mtype of
        None \<Rightarrow> None
      | Some p \<Rightarrow>
          (case contextInfo p of
             None \<Rightarrow> None
           | Some ctx \<Rightarrow>
               if quotedMessage ctx \<noteq> None \<and> truthy (stanzaId ctx) then Some ctx else None))"

text \<open>
  The chat under which the quoted message is cached, if any:
  \<open>decodeJid(ctx.remoteJid || ctx.participant || chat)\<close>, unless that is the status
  broadcast.
\<close>

definition quoted_chat :: "wa_message \<Rightarrow> string \<Rightarrow> string \<Rightarrow> string option" where
  "quoted_chat m mtype chatJid =
     (case quoting_context m mtype of
        None \<Rightarrow> None
      | Some ctx \<Rightarrow>
          (case decodeJid (js_or (ctx_remoteJid ctx) (js_or (ctx_participant ctx) (Some chatJid))) of
             None \<Rightarrow> None
           | Some qChat \<Rightarrow> if isStatusJid qChat then None else Some qChat))"

text \<open>The message object that is built for a quoted message.\<close>

definition quoted_message :: "conn_env \<Rightarrow> string \<Rightarrow> context_info \<Rightarrow> wa_message" where
  "quoted_message env qChat ctx =
     \<lparr>key_remoteJid = Some qChat,
      key_id = stanzaId ctx,
      key_fromMe = (truthy (user_lid env)
                    \<and> areJidsSameUser env (case user_lid env of None \<Rightarrow> [] | Some l \<Rightarrow> l) qChat),
      key_participant = decodeJid (ctx_participant ctx),
      participant = (if endsWith qChat ''@g.us'' then decodeJid (ctx_participant ctx) else None),
      pushName = None, messageTimestamp = None, messageStubType = None,
      message = quotedMessage ctx\<rparr>"

text \<open>
  A chat object that the store handed out and that is changed in place: the stored
  chat changes with it, without any \<open>atomicSet\<close>.
\<close>

definition mutate_stored :: "MemoryStore \<Rightarrow> string \<Rightarrow> chat \<Rightarrow> MemoryStore" where
  "mutate_stored s jid c = s\<lparr>entries := AList.update (REDIS_PREFIX @ jid) (Chat c) (entries s)\<rparr>"

text \<open>
  The caching of a quoted message. \<open>qm\<close> is read from the store; when the quoted chat
  is the chat of the message itself, that chat was found in the store, and the store
  hands out its objects, \<open>qm\<close> is the very object \<open>chatData\<close> and what is done to the one
  is done to the other. \<open>qm.messages ||= {}\<close> changes \<open>qm\<close> in place. The quoted
  message is stored, and \<open>qm\<close> written back, unless \<open>qm.messages\<close> answers its
  identifier already. The result is the store and \<open>chatData\<close> after the step.
\<close>

definition cache_quoted ::
  "conn_env \<Rightarrow> MemoryStore \<Rightarrow> string \<Rightarrow> bool \<Rightarrow> chat \<Rightarrow> wa_message \<Rightarrow> string
     \<Rightarrow> MemoryStore \<times> chat" where
  "cache_quoted env s chatJid found chatData m mtype =
     (case (quoting_context m mtype, quoted_chat m mtype chatJid) of
        (Some ctx, Some qChat) \<Rightarrow>
          let same = (qChat = chatJid \<and> found \<and> get_shares env);
              qm = (if same then chatData
                    else (case getChat s qChat of
                            Some c \<Rightarrow> c
                          | None \<Rightarrow> (chat_with_id qChat)\<lparr>isChats := Some (\<not> isGroupJid qChat)\<rparr>));
              msgs = messages_or_empty qm;
              ident = (case stanzaId ctx of None \<Rightarrow> [] | Some i \<Rightarrow> i)
          in if has_truthy msgs ident
             then (if get_shares env \<and> \<not> same \<and> getChat s qChat \<noteq> None
                   then mutate_stored s qChat (qm\<lparr>messages := Some msgs\<rparr>)
                   else s,
                   if same then qm\<lparr>messages := Some msgs\<rparr> else chatData)
             else
               let stored = assign_message msgs ident (quoted_message env qChat ctx);
                   qm' = qm\<lparr>messages := Some (stored\<lparr>own := trim_quoted (own stored)\<rparr>)\<rparr>
               in (setChat s qChat qm', if same then qm' else chatData)
      | _ \<Rightarrow> (s, chatData))"

text \<open>
  The sender of the message: for a group
  \<open>decodeJid((key.fromMe && lid) || message.participant || key.participant || chat)\<close>.
\<close>

definition group_sender :: "conn_env \<Rightarrow> string \<Rightarrow> wa_message \<Rightarrow> string option" where
  "group_sender env chatJid m =
     decodeJid
       (js_or (if key_fromMe m then user_lid env else None)
          (js_or (participant m) (js_or (key_participant m) (Some chatJid))))"

text \<open>\<open>message.pushName || chat.name || ""\<close>.\<close>

definition new_name :: "wa_message \<Rightarrow> chat \<Rightarrow> string option" where
  "new_name m c = js_or (pushName m) (js_or (name c) (Some []))"

text \<open>
  The sender's name: in a chat that is not a group it goes to the chat itself; in a
  group it goes to the chat entity of the sender, which is read and written back.
\<close>

definition update_names ::
  "conn_env \<Rightarrow> MemoryStore \<Rightarrow> string \<Rightarrow> chat \<Rightarrow> wa_message \<Rightarrow> MemoryStore \<times> chat" where
  "update_names env s chatJid chatData m =
     (if \<not> isGroupJid chatJid then (s, chatData\<lparr>name := new_name m chatData\<rparr>)
      else
        (case group_sender env chatJid m of
           None \<Rightarrow> (s, chatData)
         | Some sender \<Rightarrow>
             if sender \<noteq> chatJid
             then
               let sChat = (case getChat s sender of Some c \<Rightarrow> c | None \<Rightarrow> chat_with_id sender)
               in (setChat s sender (sChat\<lparr>name := new_name m sChat\<rparr>), chatData)
             else (s, chatData)))"

text \<open>
  Whether the message counts as the bot's own:
  \<open>key.fromMe || (lid && s && areJidsSameUser(s, lid))\<close>, where \<open>s\<close> is the sender; outside
  a group the sender is the bot for a \<open>fromMe\<close> message and the chat otherwise.
\<close>

definition sender_fromMe :: "conn_env \<Rightarrow> string \<Rightarrow> wa_message \<Rightarrow> bool" where
  "sender_fromMe env chatJid m =
     (let sender = (if isGroupJid chatJid then group_sender env chatJid m
                    else if key_fromMe m \<and> truthy (user_lid env) then user_lid env
                    else Some chatJid)
      in key_fromMe m
         \<or> (truthy (user_lid env) \<and> truthy sender
            \<and> areJidsSameUser env (case sender of None \<Rightarrow> [] | Some x \<Rightarrow> x)
                 (case user_lid env of None \<Rightarrow> [] | Some l \<Rightarrow> l)))"

text \<open>The copy that is stored: the two protocol keys are deleted from its content.\<close>

definition clean_message :: "wa_message \<Rightarrow> wa_message" where
  "clean_message m =
     m\<lparr>message := map_option
          (\<lambda>obj. AList.delete ''senderKeyDistributionMessage''
                   (AList.delete ''messageContextInfo'' obj)) (message m)\<rparr>"

text \<open>
  The block that stores the message in the window of its chat: for a kind other than
  the sender-key distribution, a message that is not the bot's own, has content, is no
  ciphertext stub and has a truthy identifier is assigned under its identifier, and the
  window is trimmed.
\<close>

definition store_in_window :: "conn_env \<Rightarrow> string \<Rightarrow> chat \<Rightarrow> wa_message \<Rightarrow> string \<Rightarrow> chat" where
  "store_in_window env chatJid chatData m mtype =
     (if mtype \<noteq> ''senderKeyDistributionMessage''
      then
        if \<not> sender_fromMe env chatJid m \<and> message m \<noteq> None
           \<and> messageStubType m \<noteq> Some CIPHERTEXT \<and> truthy (key_id m)
        then
          let stored = assign_message (messages_or_empty chatData)
                         (case key_id m of None \<Rightarrow> [] | Some i \<Rightarrow> i) (clean_message m)
          in chatData\<lparr>messages := Some (stored\<lparr>own := trim_messages (own stored)\<rparr>)\<rparr>
        else chatData
      else chatData)"

subsection \<open>The task and the queue\<close>

text \<open>
  The task that \<open>conn.pushMessage\<close> queues for a message, run from its start to its end
  with nothing else touching the store in between. (The stub processing at its start
  only writes to the log.) A task returns early for a message without content keys
  and for one whose chat is empty or the status broadcast; otherwise the chat is read
  (or created), the steps above act on it, and it is written back.
\<close>

definition push_task :: "conn_env \<Rightarrow> MemoryStore \<Rightarrow> wa_message \<Rightarrow> MemoryStore" where
  "push_task env s m =
     (case message_type m of
        None \<Rightarrow> s
      | Some mtype \<Rightarrow>
          (case message_chat m of
             None \<Rightarrow> s
           | Some chatJid \<Rightarrow>
               if isStatusJid chatJid then s
               else
                 let found = (getChat s chatJid \<noteq> None);
                     chatData0 = (case getChat s chatJid of
                                    Some c \<Rightarrow> c
                                  | None \<Rightarrow> (chat_with_id chatJid)\<lparr>isChats := Some True\<rparr>);
                     chatData1 = fetch_metadata env chatJid chatData0;
                     (s2, chatData2) = cache_quoted env s chatJid found chatData1 m mtype;
                     (s3, chatData3) = update_names env s2 chatJid chatData2 m;
                     chatData4 = store_in_window env chatJid chatData3 m mtype
                 in setChat s3 chatJid chatData4))"

text \<open>
  \<open>conn.pushMessage\<close> adds one task per message to the \<open>MessageQueue\<close>, which starts the
  queued tasks in batches of up to ten; the tasks of a batch interleave at their
  \<open>await\<close>s, each reading the chat before any of them has written it back. A task that
  is alone in its batch runs as \<open>push_task\<close> does. \<open>push_each\<close> is the run in which every
  message is passed to \<open>conn.pushMessage\<close> in a call of its own, made once the queue has
  finished the task of the call before, with no other handler writing the store
  meanwhile: every batch then holds one task. (A call with several messages, or calls
  made while the queue is busy, run their tasks interleaved; that schedule is not
  \<open>push_each\<close>.)
\<close>

definition push_each :: "conn_env \<Rightarrow> MemoryStore \<Rightarrow> wa_message list \<Rightarrow> MemoryStore" where
  "push_each env s ms = foldl (push_task env) s ms"

subsection \<open>The window of a chat, and the messages that enter it\<close>

text \<open>The own properties of \<open>messages\<close> of a chat in the store; none when there is no chat.\<close>

definition chat_window :: "MemoryStore \<Rightarrow> string \<Rightarrow> wa_message js_object" where
  "chat_window s chatJid =
     (case getChat s chatJid of None \<Rightarrow> [] | Some c \<Rightarrow> own (messages_or_empty c))"

text \<open>The identifier of a message (empty when absent) and its entry in a window.\<close>

definition message_id :: "wa_message \<Rightarrow> string" where
  "message_id m = (case key_id m of None \<Rightarrow> [] | Some ident \<Rightarrow> ident)"

definition window_entry :: "wa_message \<Rightarrow> string \<times> wa_message" where
  "window_entry m = (message_id m, clean_message m)"

text \<open>
  The messages that a task puts in the window of the chat \<open>chatJid\<close> as a new own
  property, without writing that chat in any other way: the message is of that chat,
  which is not the status broadcast; it has content, of a kind other than the
  sender-key distribution; it quotes no message that would be cached under that same
  chat; it is not the bot's own and no ciphertext stub; and its identifier is truthy
  and not \<open>__proto__\<close>.
\<close>

definition window_message :: "conn_env \<Rightarrow> string \<Rightarrow> wa_message \<Rightarrow> bool" where
  "window_message env chatJid m \<longleftrightarrow>
     message_chat m = Some chatJid \<and> \<not> isStatusJid chatJid
     \<and> (case message_type m of
          None \<Rightarrow> False
        | Some t \<Rightarrow> t \<noteq> ''senderKeyDistributionMessage'' \<and> quoted_chat m t chatJid \<noteq> Some chatJid)
     \<and> \<not> sender_fromMe env chatJid m
     \<and> messageStubType m \<noteq> Some CIPHERTEXT
     \<and> truthy (key_id m) \<and> key_id m \<noteq> Some ''__proto__''"

text \<open>
  For the examples: a text message of the chat \<open>628123@s.whatsapp.net\<close>, sent by the
  other party, with the given identifier; a chat entity with no window yet; and a
  connection whose bot has the identifier \<open>99@lid\<close>, with identifiers of the same user
  taken to be equal ones, no group metadata to be had, and a store that hands out its
  objects.
\<close>

definition text_message :: "string \<Rightarrow> wa_message" where
  "text_message ident =
     \<lparr>key_remoteJid = Some ''628123@s.whatsapp.net'', key_id = Some ident, key_fromMe = False,
      key_participant = None, participant = None, pushName = Some ''Ann'',
      messageTimestamp = Some 1700000000, messageStubType = None,
      message = Some [(''conversation'', Payload ''hi'' None None)]\<rparr>"

definition new_chat :: "string \<Rightarrow> chat" where
  "new_chat jid = (chat_with_id jid)\<lparr>isChats := Some True\<rparr>"

definition example_env :: conn_env where
  "example_env =
     \<lparr>user_lid = Some ''99@lid'', areJidsSameUser = (\<lambda>a b. a = b),
      groupMetadata = (\<lambda>_. None), get_shares = True\<rparr>"

section \<open>Durable config layer: meta values\<close>

text \<open>
  The values handed to the meta store, by the outcome of the source's \<open>typeof\<close> tests.
  A number is an IEEE-754 binary64, carried as its 64-bit pattern (42 is
  \<open>0x4045000000000000\<close>); an object carries the text \<open>Bun.inspect\<close> renders for it;
  \<open>JOther\<close> stands for the remaining kinds (function, symbol, bigint).
\<close>

type_synonym byte = "8 word"

datatype jsval =
    JUndefined
  | JNull
  | JString string
  | JNumber "64 word"
  | JBoolean bool
  | JObject string
  | JOther

text \<open>
  \<open>new TextEncoder().encode\<close>. A \<open>char\<close> is read as the code point of the same number
  (U+0000 to U+00FF): below 128 one byte, from 128 on the two bytes of UTF-8.
\<close>

definition utf8_char :: "char \<Rightarrow> byte list" where
  "utf8_char c =
     (let n = (of_char c :: nat) in
      if n < 128 then [of_nat n]
      else [of_nat (192 + n div 64), of_nat (128 + n mod 64)])"

definition text_encode :: "string \<Rightarrow> byte list" where
  "text_encode s = concat (map utf8_char s)"

text \<open>
  UTF-8 decoding, on the byte sequences whose text lies in U+0000 to U+00FF. \<open>None\<close>
  marks a byte sequence whose decoded text has a character outside that range (or
  the replacement character), which \<open>string\<close> cannot hold; the decoder itself never
  fails.
\<close>

fun utf8_decode :: "byte list \<Rightarrow> string option" where
  "utf8_decode [] = Some []"
| "utf8_decode [b] =
     (if b < 128 then Some [char_of (unat b)] else None)"
| "utf8_decode (b # c # bs) =
     (if b < 128 then map_option ((#) (char_of (unat b))) (utf8_decode (c # bs))
      else if (b = 194 \<or> b = 195) \<and> 128 \<le> c \<and> c \<le> 191
           then map_option ((#) (char_of (64 * (unat b - 192) + (unat c - 128))))
                  (utf8_decode bs)
           else None)"

text \<open>
  \<open>new TextDecoder().decode\<close>: a byte-order mark (EF BB BF) at the start is dropped,
  the rest is decoded.
\<close>

definition text_decode :: "byte list \<Rightarrow> string option" where
  "text_decode bs =
     utf8_decode
       (case bs of
          b1 # b2 # b3 # rest \<Rightarrow> if b1 = 239 \<and> b2 = 187 \<and> b3 = 191 then rest else bs
        | _ \<Rightarrow> bs)"

text \<open>\<open>new DataView(buffer.buffer).setFloat64(0, value, true)\<close>: eight bytes, low byte first.\<close>

definition setFloat64_le :: "64 word \<Rightarrow> byte list" where
  "setFloat64_le w = map (\<lambda>i. ucast (drop_bit (8 * i) w)) [0, 1, 2, 3, 4, 5, 6, 7]"

text \<open>\<open>encodeMeta\<close>; \<open>None\<close> is the source's \<open>null\<close> result.\<close>

fun encodeMeta :: "jsval \<Rightarrow> byte list option" where
  "encodeMeta JNull = None"
| "encodeMeta JUndefined = None"
| "encodeMeta (JString s) = Some (text_encode s)"
| "encodeMeta (JNumber w) = Some (setFloat64_le w)"
| "encodeMeta (JBoolean b) = Some [if b then 1 else 0]"
| "encodeMeta (JObject str) = Some (text_encode str)"
| "encodeMeta JOther = None"

text \<open>
  The test \<open>/^-?\d+\.?\d*$/\<close>: an optional minus, a non-empty digit run (taken whole: the
  rest of the pattern accepts digits only after it or after one dot), an optional dot,
  then digits to the end of the text.
\<close>

definition numeric_pattern :: "string \<Rightarrow> bool" where
  "numeric_pattern text =
     (let unsigned = (case text of [] \<Rightarrow> [] | c # cs \<Rightarrow> if c = CHR ''-'' then cs else c # cs);
          rest = dropWhile is_digit unsigned;
          fraction = (case rest of [] \<Rightarrow> [] | c # cs \<Rightarrow> if c = CHR ''.'' then cs else c # cs)
      in takeWhile is_digit unsigned \<noteq> [] \<and> list_all is_digit fraction)"

text \<open>\<open>isNaN\<close> on a binary64 pattern: exponent all ones, fraction not zero.\<close>

definition isNaN :: "64 word \<Rightarrow> bool" where
  "isNaN w \<longleftrightarrow>
     w AND 0x7FF0000000000000 = 0x7FF0000000000000 \<and> w AND 0x000FFFFFFFFFFFFF \<noteq> 0"

text \<open>
  \<open>decodeMeta\<close>. The argument is \<open>None\<close> for a falsy \<open>bytes\<close>. The built-in \<open>parseFloat\<close>
  is a parameter. The result is \<open>None\<close> only where \<open>text_decode\<close> is; the source's
  \<open>catch\<close> branch is not reached, since none of the calls in the \<open>try\<close> block throws.
\<close>

definition decodeMeta :: "(string \<Rightarrow> 64 word) \<Rightarrow> byte list option \<Rightarrow> jsval option" where
  "decodeMeta parseFloat bytes =
     (case bytes of
        None \<Rightarrow> Some JNull
      | Some bs \<Rightarrow>
          if length bs = 0 then Some JNull
          else
            (case text_decode bs of
               None \<Rightarrow> None
             | Some text \<Rightarrow>
                 Some (if numeric_pattern text \<and> \<not> isNaN (parseFloat text)
                       then JNumber (parseFloat text)
                       else if text = ''true'' then JBoolean True
                       else if text = ''false'' then JBoolean False
                       else JString text)))"

text \<open>
  The \<open>meta\<close> table (\<open>key TEXT PRIMARY KEY, value BLOB\<close>) as a map from keys to stored
  bytes; \<open>INSERT OR REPLACE\<close> overwrites the row of the key.
\<close>

type_synonym meta_table = "string \<rightharpoonup> byte list"

definition meta_get :: "(string \<Rightarrow> 64 word) \<Rightarrow> meta_table \<Rightarrow> string \<Rightarrow> jsval option" where
  "meta_get parseFloat tbl k =
     (case tbl k of
        None \<Rightarrow> Some JNull
      | Some v \<Rightarrow> decodeMeta parseFloat (Some v))"

text \<open>\<open>meta.set\<close> returns its boolean result together with the table after the call.\<close>

definition meta_set :: "meta_table \<Rightarrow> string \<Rightarrow> jsval \<Rightarrow> bool \<times> meta_table" where
  "meta_set tbl k v =
     (case encodeMeta v of
        None \<Rightarrow> (False, tbl)
      | Some bytes \<Rightarrow> (True, tbl(k \<mapsto> bytes)))"

section \<open>Durable config layer: row cache\<close>

text \<open>
  \<open>RowCache\<close>: a JavaScript \<open>Map\<close> (its entries in insertion order, keys distinct) and
  the capacity. \<open>Map.set\<close> on a present key replaces the value in place; on a new key it
  appends. \<open>Map.get\<close> does not move an entry.
\<close>

record 'v RowCache =
  cache :: "(string \<times> 'v) list"
  maxSize :: nat

definition RowCache_new :: "nat \<Rightarrow> 'v RowCache" where
  "RowCache_new n = \<lparr>cache = [], maxSize = n\<rparr>"

definition RowCache_get :: "'v RowCache \<Rightarrow> string \<Rightarrow> 'v option" where
  "RowCache_get c k = map_of (cache c) k"

text \<open>
  \<open>set\<close>: at or above capacity the first key of the map is deleted (on an empty map
  \<open>keys().next().value\<close> is \<open>undefined\<close> and the deletion does nothing), then the entry
  is stored.
\<close>

definition RowCache_set :: "'v RowCache \<Rightarrow> string \<Rightarrow> 'v \<Rightarrow> 'v RowCache" where
  "RowCache_set c k v =
     (let kept =
        (if length (cache c) \<ge> maxSize c
         then (case cache c of
                 [] \<Rightarrow> []
               | (firstKey, _) # _ \<Rightarrow> AList.delete firstKey (cache c))
         else cache c)
      in c\<lparr>cache := AList.update k v kept\<rparr>)"

definition RowCache_delete :: "'v RowCache \<Rightarrow> string \<Rightarrow> 'v RowCache" where
  "RowCache_delete c k = c\<lparr>cache := AList.delete k (cache c)\<rparr>"

definition RowCache_clear :: "'v RowCache \<Rightarrow> 'v RowCache" where
  "RowCache_clear c = c\<lparr>cache := []\<rparr>"

text \<open>The four operations as data, and a cache driven through a sequence of them.\<close>

datatype 'v cache_op = Get string | Set string 'v | Delete string | Clear

fun apply_cache_op :: "'v RowCache \<Rightarrow> 'v cache_op \<Rightarrow> 'v RowCache" where
  "apply_cache_op c (Get k) = c"
| "apply_cache_op c (Set k v) = RowCache_set c k v"
| "apply_cache_op c (Delete k) = RowCache_delete c k"
| "apply_cache_op c Clear = RowCache_clear c"

definition run_cache_ops :: "'v RowCache \<Rightarrow> 'v cache_op list \<Rightarrow> 'v RowCache" where
  "run_cache_ops c ops = foldl apply_cache_op c ops"

section \<open>Durable config layer: rows\<close>

text \<open>The two tables that have row proxies, and the columns \<open>SCHEMAS\<close> gives them.\<close>

datatype table = chats | settings

fun table_name :: "table \<Rightarrow> string" where
  "table_name chats = ''chats''"
| "table_name settings = ''settings''"

fun SCHEMAS_columns :: "table \<Rightarrow> string list" where
  "SCHEMAS_columns chats = [''jid'', ''mute'']"
| "SCHEMAS_columns settings = [''jid'', ''self'', ''gconly'']"

text \<open>The capacities the \<open>DataWrapper\<close> constructor gives the two row caches.\<close>

fun rowCaches :: "table \<Rightarrow> 'v RowCache" where
  "rowCaches chats = RowCache_new 100"
| "rowCaches settings = RowCache_new 50"

text \<open>\<open>STMTS.updateCol[table][col]\<close> exists for every column of the table but \<open>jid\<close>.\<close>

definition has_updateCol :: "table \<Rightarrow> string \<Rightarrow> bool" where
  "has_updateCol t col \<longleftrightarrow> col \<in> set (SCHEMAS_columns t) \<and> col \<noteq> ''jid''"

text \<open>
  What a row proxy's \<open>set\<close> trap can touch: the proxied row object \<open>rowData\<close>, the rows of
  the table in the database (by \<open>jid\<close>), and the logger's warnings. The columns other
  than \<open>jid\<close> are declared \<open>INTEGER\<close>, and SQLite converts a value bound to such a column
  by its type affinity (the text \<open>'12'\<close> is kept as the number 12); that conversion
  belongs to the database and is the field \<open>integer_affinity\<close>: the value a later
  \<open>SELECT\<close> returns for the value bound.
\<close>

type_synonym row = "string \<rightharpoonup> jsval"

record row_state =
  rowData :: row
  db_rows :: "table \<Rightarrow> string \<rightharpoonup> row"
  integer_affinity :: "jsval \<Rightarrow> jsval"
  warnings :: "(table \<times> string) list"

text \<open>The numbers 1 and 0, which replace \<open>true\<close> and \<open>false\<close> before storage.\<close>

definition normalize_value :: "jsval \<Rightarrow> jsval" where
  "normalize_value v =
     (case v of
        JBoolean b \<Rightarrow> JNumber (if b then 0x3FF0000000000000 else 0)
      | _ \<Rightarrow> v)"

text \<open>
  \<open>UPDATE t SET col = ? WHERE jid = ?\<close>: changes the row of \<open>jid\<close> when there is one; the
  column keeps the bound value as its affinity converts it.
\<close>

definition run_updateCol ::
  "(jsval \<Rightarrow> jsval) \<Rightarrow> (table \<Rightarrow> string \<rightharpoonup> row) \<Rightarrow> table \<Rightarrow> string \<Rightarrow> jsval \<Rightarrow> string
     \<Rightarrow> (table \<Rightarrow> string \<rightharpoonup> row)" where
  "run_updateCol affinity d t col v jid =
     (case d t jid of
        None \<Rightarrow> d
      | Some r \<Rightarrow> d(t := (d t)(jid \<mapsto> r(col \<mapsto> affinity v))))"

text \<open>The \<open>set\<close> trap of \<open>_createRowProxy\<close>: its boolean result and the state after it.\<close>

definition row_proxy_set ::
  "table \<Rightarrow> string \<Rightarrow> row_state \<Rightarrow> string \<Rightarrow> jsval \<Rightarrow> bool \<times> row_state" where
  "row_proxy_set t jid st prop v =
     (if prop \<notin> set (SCHEMAS_columns t)
      then (False, st\<lparr>warnings := warnings st @ [(t, prop)]\<rparr>)
      else
        let normalizedValue = normalize_value v in
        if has_updateCol t prop
        then (True, st\<lparr>db_rows := run_updateCol (integer_affinity st) (db_rows st) t prop
                                      normalizedValue jid,
                        rowData := (rowData st)(prop \<mapsto> normalizedValue)\<rparr>)
        else (False, st))"

text \<open>
  The assignment \<open>row[prop] = value\<close> as the repository's modules run it. They are
  ECMAScript modules (\<open>import\<close>/\<open>export\<close>), and module code is always strict-mode code.
  The assignment calls the proxy's \<open>[[Set]]\<close>, which reports what the \<open>set\<close> trap
  returned; by PutValue of ECMA-262, ``if succeeded is false and the reference is strict,
  throw a TypeError exception''. The result is the exception, if any, and the state.
\<close>

datatype js_error = TypeError

definition assign_row_field ::
  "table \<Rightarrow> string \<Rightarrow> row_state \<Rightarrow> string \<Rightarrow> jsval \<Rightarrow> js_error option \<times> row_state" where
  "assign_row_field t jid st prop v =
     (case row_proxy_set t jid st prop v of
        (succeeded, st') \<Rightarrow> (if succeeded then None else Some TypeError, st'))"

text \<open>
  For the examples: the state after the first read of \<open>db.data.chats[jid]\<close>, which
  created the row with its default. (The examples write numbers only, which an
  \<open>INTEGER\<close> column returns as they are.)
\<close>

definition fresh_chats_row :: "string \<Rightarrow> row_state" where
  "fresh_chats_row jid =
     \<lparr>rowData = [''jid'' \<mapsto> JString jid, ''mute'' \<mapsto> JNumber 0],
      db_rows = (\<lambda>t. case t of
                       chats \<Rightarrow> [jid \<mapsto> [''jid'' \<mapsto> JString jid, ''mute'' \<mapsto> JNumber 0]]
                     | settings \<Rightarrow> Map.empty),
      integer_affinity = (\<lambda>v. v),
      warnings = []\<rparr>"

chapter \<open>Properties\<close>

section \<open>Properties of the identity normalizer\<close>

lemma is_digit_colon [simp]: "\<not> is_digit CHR '':''"
  by (simp add: is_digit_def)

lemma is_digit_at [simp]: "\<not> is_digit CHR ''@''"
  by (simp add: is_digit_def)

lemma replace_device_none: "\<not> has_device s \<Longrightarrow> replace_device s = s"
  by (induction s) auto

lemma takeWhile_digits_at:
  "list_all is_digit d \<Longrightarrow> takeWhile is_digit (d @ CHR ''@'' # s) = d"
  by (induction d) auto

lemma dropWhile_digits_at:
  "list_all is_digit d \<Longrightarrow> dropWhile is_digit (d @ CHR ''@'' # s) = CHR ''@'' # s"
  by (induction d) auto

lemma device_at_suffix:
  "list_all is_digit d \<Longrightarrow> d \<noteq> [] \<Longrightarrow> device_at (CHR '':'' # d @ CHR ''@'' # s)"
  by (simp add: device_at_def takeWhile_digits_at dropWhile_digits_at)

text \<open>
  A match that starts before a later \<open>:\<close> ends before it: the digit run cannot cross the
  colon, and the colon is not the \<open>@\<close> that must follow the run.
\<close>

lemma device_at_before_colon:
  assumes "device_at (c # p @ CHR '':'' # t)"
  shows "device_at (c # p @ u)"
proof (cases "list_all is_digit p")
  case True
  then have "takeWhile is_digit (p @ CHR '':'' # t) = p"
    and "dropWhile is_digit (p @ CHR '':'' # t) = CHR '':'' # t"
    by (induction p) auto
  with assms show ?thesis by (simp add: device_at_def)
next
  case False
  then obtain x where x: "x \<in> set p" "\<not> is_digit x"
    by (auto simp: list_all_iff)
  then have "dropWhile is_digit p \<noteq> []"
    by auto
  then obtain y ys where y: "dropWhile is_digit p = y # ys"
    by (cases "dropWhile is_digit p") auto
  from x have "takeWhile is_digit (p @ v) = takeWhile is_digit p"
    and "dropWhile is_digit (p @ v) = y # ys @ v" for v
    by (simp_all add: y)
  then show ?thesis
    using assms by (simp add: device_at_def)
qed

lemma replace_device_strip:
  assumes "list_all is_digit d" "d \<noteq> []"
  shows "\<not> has_device (p @ CHR ''@'' # s) \<Longrightarrow>
         replace_device (p @ CHR '':'' # d @ CHR ''@'' # s) = p @ CHR ''@'' # s"
proof (induction p)
  case Nil
  from assms show ?case
    using device_at_suffix [of d s] by (simp add: dropWhile_digits_at)
next
  case (Cons c p)
  from Cons.prems have no: "\<not> device_at (c # p @ CHR ''@'' # s)"
    and rest: "\<not> has_device (p @ CHR ''@'' # s)"
    by simp_all
  have "\<not> device_at (c # p @ CHR '':'' # d @ CHR ''@'' # s)"
    using no device_at_before_colon [of c p "d @ CHR ''@'' # s" "CHR ''@'' # s"] by blast
  with Cons.IH [OF rest] show ?case by simp
qed

text \<open>
  C3 (as amended). When the device suffix \<open>:<digits>\<close> stands immediately before an \<open>@\<close>,
  and the identifier without that suffix holds no further \<open>:<digits>@\<close>, normalizing the
  identifier and normalizing the identifier with the suffix removed give the same
  result, namely the identifier with the suffix removed.
\<close>

theorem decodeJid_device_suffix:
  assumes "list_all is_digit d" and "d \<noteq> []"
    and "\<not> has_device (p @ ''@'' @ s)"
  shows "decodeJid (Some (p @ '':'' @ d @ ''@'' @ s)) = decodeJid (Some (p @ ''@'' @ s))
         \<and> decodeJid (Some (p @ '':'' @ d @ ''@'' @ s)) = Some (p @ ''@'' @ s)"
proof -
  from assms have 1: "replace_device (p @ CHR '':'' # d @ CHR ''@'' # s) = p @ CHR ''@'' # s"
    by (simp add: replace_device_strip)
  from assms(3) have 2: "replace_device (p @ CHR ''@'' # s) = p @ CHR ''@'' # s"
    by (simp add: replace_device_none)
  from 1 2 show ?thesis by (simp add: decodeJid_def)
qed

theorem decodeJid_device_suffix_witness:
  "decodeJid (Some ''1234567890:0@s.whatsapp.net'') = decodeJid (Some ''1234567890@s.whatsapp.net'')
   \<and> decodeJid (Some ''1234567890:0@s.whatsapp.net'') = Some ''1234567890@s.whatsapp.net''"
  using decodeJid_device_suffix [of "''0''" "''1234567890''" "''s.whatsapp.net''"]
  by (simp add: decodeJid_def is_digit_def device_at_def)

text \<open>
  C3 as stated fails when the trailing \<open>:<digits>\<close> is not followed by \<open>@\<close>: the
  expression \<open>/:\d+@/\<close> does not match, the suffix stays, and the result is not even
  given the default namespace.
\<close>

theorem decodeJid_trailing_suffix_counterexample:
  "decodeJid (Some ''628123:7'') = Some ''628123:7''
   \<and> decodeJid (Some ''628123'') = Some ''628123@s.whatsapp.net''
   \<and> decodeJid (Some ''628123:7'') \<noteq> decodeJid (Some ''628123'')"
  by (simp add: decodeJid_def device_at_def is_digit_def)

section \<open>Properties of the meta store\<close>

text \<open>
  C10. \<open>meta.set\<close> with \<open>null\<close> or \<open>undefined\<close> returns \<open>false\<close> and leaves the meta table
  as it was; with a string, a number, a boolean or an object it writes the encoded
  bytes under the key and returns \<open>true\<close>.
\<close>

theorem meta_set_result:
  "meta_set tbl k JNull = (False, tbl)
   \<and> meta_set tbl k JUndefined = (False, tbl)
   \<and> meta_set tbl k (JString s) = (True, tbl(k \<mapsto> text_encode s))
   \<and> meta_set tbl k (JNumber w) = (True, tbl(k \<mapsto> setFloat64_le w))
   \<and> meta_set tbl k (JBoolean b) = (True, tbl(k \<mapsto> [if b then 1 else 0]))
   \<and> meta_set tbl k (JObject str) = (True, tbl(k \<mapsto> text_encode str))"
  by (simp add: meta_set_def)

theorem meta_set_result_witness:
  "meta_set Map.empty ''k'' JNull = (False, Map.empty)
   \<and> meta_set Map.empty ''k'' JUndefined = (False, Map.empty)
   \<and> meta_set Map.empty ''k'' (JString ''hello'') = (True, [''k'' \<mapsto> text_encode ''hello''])
   \<and> meta_set Map.empty ''k'' (JNumber 0x4045000000000000)
       = (True, [''k'' \<mapsto> setFloat64_le 0x4045000000000000])
   \<and> meta_set Map.empty ''k'' (JBoolean True) = (True, [''k'' \<mapsto> [if True then 1 else 0]])
   \<and> meta_set Map.empty ''k'' (JObject ''{ a: 1 }'') = (True, [''k'' \<mapsto> text_encode ''{ a: 1 }''])"
  using meta_set_result [of Map.empty "''k''" "''hello''" "0x4045000000000000" True "''{ a: 1 }''"]
  by blast

lemma text_decode_drops_mark: "text_decode [0xEF, 0xBB, 0xBF, 0x68, 0x69] = Some ''hi''"
  by code_simp

lemma setFloat64_le_42: "setFloat64_le 0x4045000000000000 = [0, 0, 0, 0, 0, 0, 0x45, 0x40]"
  by code_simp

lemma decodeMeta_number_42:
  "decodeMeta parseFloat (Some [0, 0, 0, 0, 0, 0, 0x45, 0x40])
   = Some (JString [CHR 0x00, CHR 0x00, CHR 0x00, CHR 0x00, CHR 0x00, CHR 0x00, CHR ''E'', CHR ''@''])"
  by code_simp

lemma decodeMeta_boolean_true: "decodeMeta parseFloat (Some [1]) = Some (JString [CHR 0x01])"
  by code_simp

lemma decodeMeta_hello:
  "decodeMeta parseFloat (Some (text_encode ''hello'')) = Some (JString ''hello'')"
  by code_simp

text \<open>
  C2, evaluated. The string \<open>"hello"\<close> is read back as written. The number 42 is written
  as the eight bytes of its binary64 form and read back as text: those bytes decode to
  six NUL characters followed by \<open>E@\<close>, which is neither a numeral nor a boolean literal,
  so \<open>meta.get\<close> returns that string and not 42. Likewise \<open>true\<close> is written as the byte
  1 and read back as the one-character string U+0001.
\<close>

theorem meta_roundtrip_evaluated:
  "meta_get parseFloat (snd (meta_set tbl k (JString ''hello''))) k = Some (JString ''hello'')
   \<and> meta_get parseFloat (snd (meta_set tbl k (JNumber 0x4045000000000000))) k
       = Some (JString [CHR 0x00, CHR 0x00, CHR 0x00, CHR 0x00, CHR 0x00, CHR 0x00, CHR ''E'', CHR ''@''])
   \<and> meta_get parseFloat (snd (meta_set tbl k (JBoolean True))) k = Some (JString [CHR 0x01])"
  by (simp add: meta_get_def meta_set_def setFloat64_le_42 decodeMeta_number_42
      decodeMeta_boolean_true decodeMeta_hello)

section \<open>Properties of the row cache\<close>

lemma length_delete_le: "length (AList.delete k al) \<le> length al"
  by (simp add: AList.delete_eq)

lemma length_update_le: "length (AList.update k v al) \<le> Suc (length al)"
  by (induction al) auto

lemma RowCache_set_bounded:
  assumes "0 < maxSize c" and "length (cache c) \<le> maxSize c"
  shows "length (cache (RowCache_set c k v)) \<le> maxSize c
         \<and> maxSize (RowCache_set c k v) = maxSize c"
proof (cases "length (cache c) \<ge> maxSize c")
  case True
  with assms obtain fk fv rest where c: "cache c = (fk, fv) # rest"
    by (cases "cache c") auto
  have "length (AList.delete fk (cache c)) \<le> length rest"
    by (simp add: c length_delete_le)
  moreover have "Suc (length rest) \<le> maxSize c"
    using assms(2) by (simp add: c)
  ultimately have "Suc (length (AList.delete fk (cache c))) \<le> maxSize c"
    by linarith
  with True c show ?thesis
    using length_update_le [of k v "AList.delete fk (cache c)"]
    by (simp add: RowCache_set_def)
next
  case False
  then show ?thesis
    using length_update_le [of k v "cache c"]
    by (simp add: RowCache_set_def)
qed

lemma apply_cache_op_bounded:
  assumes "0 < maxSize c" and "length (cache c) \<le> maxSize c"
  shows "length (cache (apply_cache_op c op)) \<le> maxSize c
         \<and> maxSize (apply_cache_op c op) = maxSize c"
proof (cases op)
  case (Set k v)
  with assms show ?thesis by (simp add: RowCache_set_bounded)
next
  case (Delete k)
  with assms show ?thesis
    using length_delete_le [of k "cache c"] by (simp add: RowCache_delete_def)
qed (use assms in \<open>simp_all add: RowCache_clear_def\<close>)

lemma run_cache_ops_bounded:
  "0 < maxSize c \<Longrightarrow> length (cache c) \<le> maxSize c \<Longrightarrow>
   length (cache (run_cache_ops c ops)) \<le> maxSize c
   \<and> maxSize (run_cache_ops c ops) = maxSize c"
  unfolding run_cache_ops_def
proof (induction ops arbitrary: c)
  case Nil
  then show ?case by simp
next
  case (Cons op ops)
  from apply_cache_op_bounded [OF Cons.prems, of op]
  have "0 < maxSize (apply_cache_op c op)"
    and "length (cache (apply_cache_op c op)) \<le> maxSize (apply_cache_op c op)"
    and "maxSize (apply_cache_op c op) = maxSize c"
    using Cons.prems by simp_all
  with Cons.IH [of "apply_cache_op c op"] show ?case by simp
qed

text \<open>
  C9 (as amended). A \<open>RowCache\<close> constructed with a capacity of at least one never holds
  more entries than its capacity, after any sequence of get, set, delete and clear.
\<close>

theorem RowCache_never_exceeds_capacity:
  "0 < n \<Longrightarrow> length (cache (run_cache_ops (RowCache_new n) ops)) \<le> n"
  using run_cache_ops_bounded [of "RowCache_new n" ops] by (simp add: RowCache_new_def)

theorem RowCache_never_exceeds_capacity_witness:
  "length (cache (run_cache_ops (RowCache_new 2)
      [Set ''chats:a'' (1::nat), Set ''chats:b'' 2, Get ''chats:a'', Set ''chats:c'' 3,
       Delete ''chats:b'', Set ''chats:d'' 4, Clear, Set ''chats:e'' 5])) \<le> 2"
  using RowCache_never_exceeds_capacity [of 2
      "[Set ''chats:a'' (1::nat), Set ''chats:b'' 2, Get ''chats:a'', Set ''chats:c'' 3,
        Delete ''chats:b'', Set ''chats:d'' 4, Clear, Set ''chats:e'' 5]"]
  by simp

text \<open>
  C9 as stated fails for the capacity 0: \<open>set\<close> finds no first key to delete and stores
  the entry all the same, so the cache holds one entry.
\<close>

theorem RowCache_zero_capacity_counterexample:
  "\<not> length (cache (run_cache_ops (RowCache_new 0) [Set ''chats:a'' ()])) \<le> 0"
  by (simp add: run_cache_ops_def RowCache_new_def RowCache_set_def)

lemma update_fresh: "k \<notin> fst ` set al \<Longrightarrow> AList.update k v al = al @ [(k, v)]"
  by (induction al) auto

lemma delete_head_fresh: "k \<notin> fst ` set al \<Longrightarrow> AList.delete k ((k, v) # al) = al"
  by (simp add: AList.delete_eq filter_id_conv) (auto simp: image_iff)

lemma RowCache_set_room:
  assumes "length al < n" and "k \<notin> fst ` set al"
  shows "RowCache_set \<lparr>cache = al, maxSize = n\<rparr> k v = \<lparr>cache = al @ [(k, v)], maxSize = n\<rparr>"
  using assms by (simp add: RowCache_set_def update_fresh)

lemma RowCache_fill:
  "distinct (map fst al @ ks) \<Longrightarrow> length al + length ks \<le> n \<Longrightarrow>
   run_cache_ops \<lparr>cache = al, maxSize = n\<rparr> (map (\<lambda>k. Set k v) ks)
     = \<lparr>cache = al @ map (\<lambda>k. (k, v)) ks, maxSize = n\<rparr>"
proof (induction ks arbitrary: al)
  case Nil
  then show ?case by (simp add: run_cache_ops_def)
next
  case (Cons k ks)
  from Cons.prems have fresh: "k \<notin> fst ` set al" and room: "length al < n"
    by auto
  from Cons.prems have "distinct (map fst (al @ [(k, v)]) @ ks)"
    and "length (al @ [(k, v)]) + length ks \<le> n"
    by auto
  from Cons.IH [OF this] show ?case
    using RowCache_set_room [OF room fresh, of v]
    by (simp add: run_cache_ops_def)
qed

lemma RowCache_set_full:
  assumes "k1 \<notin> set ks" and "knew \<notin> set (k1 # ks)" and "Suc (length ks) = n"
  shows "RowCache_set \<lparr>cache = map (\<lambda>k. (k, v)) (k1 # ks), maxSize = n\<rparr> knew v
         = \<lparr>cache = map (\<lambda>k. (k, v)) ks @ [(knew, v)], maxSize = n\<rparr>"
proof -
  have 1: "k1 \<notin> fst ` set (map (\<lambda>k. (k, v)) ks)"
    using assms(1) by (auto simp: image_iff)
  have 2: "knew \<notin> fst ` set (map (\<lambda>k. (k, v)) ks)"
    using assms(2) by (auto simp: image_iff)
  show ?thesis
    using assms(3) delete_head_fresh [OF 1, of v] update_fresh [OF 2, of v]
    by (simp add: RowCache_set_def)
qed

text \<open>
  C8, evaluated. Fill a row cache of the \<open>DataWrapper\<close> to its capacity (100 for
  \<open>chats\<close>, 50 for \<open>settings\<close>) with distinct keys, the first two being \<open>k1\<close> and \<open>k2\<close>;
  then read \<open>k1\<close>, so that \<open>k1\<close> is touched more recently than \<open>k2\<close>; then store a new
  key. The entry evicted is \<open>k1\<close>, the first inserted, and \<open>k2\<close> stays: eviction follows
  insertion order, and a read does not count.
\<close>

theorem RowCache_evicts_first_inserted:
  assumes "distinct (k1 # k2 # mid @ [knew])"
    and "length (k1 # k2 # mid) = maxSize (rowCaches t :: 'v RowCache)"
  shows "(let full = run_cache_ops (rowCaches t) (map (\<lambda>k. Set k (v::'v)) (k1 # k2 # mid));
              after = run_cache_ops full [Get k1, Set knew v]
          in RowCache_get full k1 = Some v \<and> RowCache_get full k2 = Some v
             \<and> RowCache_get after k1 = None \<and> RowCache_get after k2 = Some v)
         \<and> maxSize (rowCaches chats :: 'v RowCache) = 100
         \<and> maxSize (rowCaches settings :: 'v RowCache) = 50"
proof -
  let ?n = "maxSize (rowCaches t :: 'v RowCache)"
  have new: "(rowCaches t :: 'v RowCache) = \<lparr>cache = [], maxSize = ?n\<rparr>"
    by (cases t) (simp_all add: RowCache_new_def)
  have full: "run_cache_ops (rowCaches t) (map (\<lambda>k. Set k v) (k1 # k2 # mid))
              = \<lparr>cache = map (\<lambda>k. (k, v)) (k1 # k2 # mid), maxSize = ?n\<rparr>"
    using RowCache_fill [of "[]" "k1 # k2 # mid" ?n v] assms new by simp
  have after: "run_cache_ops \<lparr>cache = map (\<lambda>k. (k, v)) (k1 # k2 # mid), maxSize = ?n\<rparr>
                 [Get k1, Set knew v]
               = \<lparr>cache = map (\<lambda>k. (k, v)) (k2 # mid) @ [(knew, v)], maxSize = ?n\<rparr>"
  proof -
    from assms(1) have "k1 \<notin> set (k2 # mid)" and "knew \<notin> set (k1 # k2 # mid)"
      by auto
    moreover from assms(2) have "Suc (length (k2 # mid)) = ?n"
      by simp
    ultimately show ?thesis
      using RowCache_set_full [of k1 "k2 # mid" knew ?n v]
      by (simp add: run_cache_ops_def)
  qed
  have "k1 \<noteq> k2" "k1 \<notin> set mid" "k1 \<noteq> knew"
    using assms(1) by auto
  then have gone: "map_of (map (\<lambda>k. (k, v)) (k2 # mid) @ [(knew, v)]) k1 = None"
    by (auto simp: map_of_eq_None_iff image_iff)
  show ?thesis
    unfolding Let_def full after
    using gone by (simp add: RowCache_get_def RowCache_new_def)
qed

theorem RowCache_evicts_first_inserted_witness:
  "(let full = run_cache_ops (rowCaches settings)
                 (map (\<lambda>k. Set k ()) (''settings:7'' # ''settings:77'' #
                    map (\<lambda>i. ''settings:'' @ replicate i CHR ''7'') [3..<51]));
        after = run_cache_ops full [Get ''settings:7'', Set ''settings:8'' ()]
    in RowCache_get full ''settings:7'' = Some () \<and> RowCache_get full ''settings:77'' = Some ()
       \<and> RowCache_get after ''settings:7'' = None \<and> RowCache_get after ''settings:77'' = Some ())"
proof -
  have "CHR ''8'' \<notin> set (replicate i CHR ''7'')" for i
    by simp
  then have other: "replicate i CHR ''7'' \<noteq> ''8''" for i
    by (metis list.set_intros(1))
  have d: "distinct (''settings:7'' # ''settings:77'' #
             map (\<lambda>i. ''settings:'' @ replicate i CHR ''7'') [3..<51] @ [''settings:8''])"
    by (auto simp: distinct_map inj_on_def Cons_replicate_eq other)
  have l: "length (''settings:7'' # ''settings:77'' #
             map (\<lambda>i. ''settings:'' @ replicate i CHR ''7'') [3..<51])
           = maxSize (rowCaches settings :: unit RowCache)"
    by (simp add: RowCache_new_def)
  from RowCache_evicts_first_inserted [OF d l, of "()"] show ?thesis
    by blast
qed

section \<open>Properties of the row proxy\<close>

text \<open>
  C7 (as amended). A write of a field that is not a column of the table is refused by the
  \<open>set\<close> trap: the trap returns \<open>false\<close>, a warning is logged, and neither the row
  object nor the database changes. The assignment that made the write then raises a
  \<open>TypeError\<close>, since the trap's \<open>false\<close> reaches strict-mode code.
\<close>

theorem row_proxy_set_unknown_column:
  assumes "prop \<notin> set (SCHEMAS_columns t)"
  shows "fst (row_proxy_set t jid st prop v) = False
         \<and> rowData (snd (row_proxy_set t jid st prop v)) = rowData st
         \<and> db_rows (snd (row_proxy_set t jid st prop v)) = db_rows st
         \<and> warnings (snd (row_proxy_set t jid st prop v)) = warnings st @ [(t, prop)]
         \<and> assign_row_field t jid st prop v
             = (Some TypeError, st\<lparr>warnings := warnings st @ [(t, prop)]\<rparr>)"
  using assms by (simp add: row_proxy_set_def assign_row_field_def)

theorem row_proxy_set_unknown_column_witness:
  "fst (row_proxy_set chats ''628123@s.whatsapp.net''
          (fresh_chats_row ''628123@s.whatsapp.net'') ''banned'' (JBoolean True)) = False
   \<and> rowData (snd (row_proxy_set chats ''628123@s.whatsapp.net''
          (fresh_chats_row ''628123@s.whatsapp.net'') ''banned'' (JBoolean True)))
       = rowData (fresh_chats_row ''628123@s.whatsapp.net'')
   \<and> db_rows (snd (row_proxy_set chats ''628123@s.whatsapp.net''
          (fresh_chats_row ''628123@s.whatsapp.net'') ''banned'' (JBoolean True)))
       = db_rows (fresh_chats_row ''628123@s.whatsapp.net'')
   \<and> warnings (snd (row_proxy_set chats ''628123@s.whatsapp.net''
          (fresh_chats_row ''628123@s.whatsapp.net'') ''banned'' (JBoolean True)))
       = [(chats, ''banned'')]"
  using row_proxy_set_unknown_column [of "''banned''" chats "''628123@s.whatsapp.net''"
      "fresh_chats_row ''628123@s.whatsapp.net''" "JBoolean True"]
  by (simp add: fresh_chats_row_def)

text \<open>
  C7 as stated fails in its last part: the assignment of an unknown field, made from a
  module of the repository, does raise an exception.
\<close>

theorem unknown_column_assignment_counterexample:
  "fst (assign_row_field chats ''628123@s.whatsapp.net''
          (fresh_chats_row ''628123@s.whatsapp.net'') ''banned'' (JBoolean True))
   = Some TypeError"
  by (simp add: assign_row_field_def row_proxy_set_def)

text \<open>For comparison, a write of a column: the value is normalized and written through.\<close>

lemma row_proxy_set_column:
  "assign_row_field chats ''628123@s.whatsapp.net''
      (fresh_chats_row ''628123@s.whatsapp.net'') ''mute'' (JBoolean True)
   = (None,
      \<lparr>rowData = [''jid'' \<mapsto> JString ''628123@s.whatsapp.net'',
                  ''mute'' \<mapsto> JNumber 0x3FF0000000000000],
       db_rows = (db_rows (fresh_chats_row ''628123@s.whatsapp.net''))
                   (chats := [''628123@s.whatsapp.net'' \<mapsto>
                      [''jid'' \<mapsto> JString ''628123@s.whatsapp.net'',
                       ''mute'' \<mapsto> JNumber 0x3FF0000000000000]]),
       integer_affinity = (\<lambda>v. v),
       warnings = []\<rparr>)"
  by (simp add: assign_row_field_def row_proxy_set_def has_updateCol_def normalize_value_def
      run_updateCol_def fresh_chats_row_def Let_def)

section \<open>Properties of the \<open>messages.upsert\<close> handler\<close>

lemma message_key_not_chat_key [simp]:
  "REDIS_MESSAGE_PREFIX @ x \<noteq> REDIS_PREFIX @ y" "REDIS_PREFIX @ y \<noteq> REDIS_MESSAGE_PREFIX @ x"
  by (simp_all add: REDIS_MESSAGE_PREFIX_def REDIS_PREFIX_def)

lemma get_atomicSet:
  "MemoryStore_get (MemoryStore_atomicSet s k v kind) k' = (if k' = k then Some v else MemoryStore_get s k')"
  by (simp add: MemoryStore_get_def MemoryStore_atomicSet_def update_conv')

lemma get_enqueueEvent [simp]: "MemoryStore_get (enqueueEvent s n p) k = MemoryStore_get s k"
  by (simp add: MemoryStore_get_def enqueueEvent_def)

lemma upsert_message_body:
  assumes "key_remoteJid msg = Some chatId" and "key_id msg = Some messageId"
    and "chatId \<noteq> []" and "messageId \<noteq> []" and "chatId \<noteq> ''status@broadcast''"
  shows "MemoryStore_get (upsert_message s msg) (''o3din:message:'' @ chatId @ '':'' @ messageId)
           = Some (Message msg)
         \<and> map_option conversationTimestamp (getChat (upsert_message s msg) chatId)
             = Some (messageTimestamp msg)
         \<and> map_option unreadCount (getChat (upsert_message s msg) chatId)
             = Some (let before = (case getChat s chatId of None \<Rightarrow> None | Some c \<Rightarrow> unreadCount c)
                     in if key_fromMe msg then before
                        else Some ((case before of None \<Rightarrow> 0 | Some n \<Rightarrow> n) + 1))"
proof -
  let ?s1 = "setMessage s chatId messageId msg"
  have same: "getChat ?s1 chatId = getChat s chatId"
    by (simp add: getChat_def setMessage_def get_atomicSet)
  have msgkey: "''o3din:message:'' @ chatId @ '':'' @ messageId
                = REDIS_MESSAGE_PREFIX @ chatId @ '':'' @ messageId"
    by (simp add: REDIS_MESSAGE_PREFIX_def)
  show ?thesis
    using assms
    unfolding msgkey
    by (cases "getChat s chatId")
       (simp_all add: upsert_message_def same Let_def getChat_def setChat_def setMessage_def
          get_atomicSet chat_with_id_def)
qed

lemma messages_upsert_snoc:
  "messages_upsert s (ms @ [msg]) = upsert_message (messages_upsert s ms) msg"
  by (simp add: messages_upsert_def)

text \<open>
  C5. Let the \<open>messages.upsert\<close> handler process a message that has a chat id and a
  message id, the chat not being the status broadcast (after any earlier messages \<open>ms\<close>
  of the event). Then the message is stored under the key
  \<open>o3din:message:<chat>:<id>\<close>, the chat entity carries the timestamp of the message,
  and the chat's unread counter is one more than before the message (counting from 0
  when there was none) if the message is not self-sent, and is what it was before the
  message if it is.
\<close>

theorem messages_upsert_effect:
  assumes "key_remoteJid msg = Some chatId" and "key_id msg = Some messageId"
    and "chatId \<noteq> []" and "messageId \<noteq> []" and "chatId \<noteq> ''status@broadcast''"
  shows "MemoryStore_get (messages_upsert s (ms @ [msg]))
             (''o3din:message:'' @ chatId @ '':'' @ messageId) = Some (Message msg)
         \<and> map_option conversationTimestamp (getChat (messages_upsert s (ms @ [msg])) chatId)
             = Some (messageTimestamp msg)
         \<and> map_option unreadCount (getChat (messages_upsert s (ms @ [msg])) chatId)
             = Some (let before = (case getChat (messages_upsert s ms) chatId of
                                     None \<Rightarrow> None
                                   | Some c \<Rightarrow> unreadCount c)
                     in if key_fromMe msg then before
                        else Some ((case before of None \<Rightarrow> 0 | Some n \<Rightarrow> n) + 1))"
  unfolding messages_upsert_snoc
  using assms by (rule upsert_message_body)

lemma unread_after_first_message:
  "getChat (messages_upsert \<lparr>entries = [], queue = []\<rparr> [text_message ''3EB0A0''])
     ''628123@s.whatsapp.net''
   = Some ((new_chat ''628123@s.whatsapp.net'')
       \<lparr>conversationTimestamp := Some 1700000000, unreadCount := Some 1\<rparr>)"
  by code_simp

theorem messages_upsert_effect_witness:
  "MemoryStore_get
       (messages_upsert \<lparr>entries = [], queue = []\<rparr>
          ([text_message ''3EB0A0''] @ [text_message ''3EB0A1'']))
       ''o3din:message:628123@s.whatsapp.net:3EB0A1'' = Some (Message (text_message ''3EB0A1''))
   \<and> map_option conversationTimestamp
         (getChat (messages_upsert \<lparr>entries = [], queue = []\<rparr>
            ([text_message ''3EB0A0''] @ [text_message ''3EB0A1'']))
            ''628123@s.whatsapp.net'') = Some (Some 1700000000)
   \<and> map_option unreadCount
         (getChat (messages_upsert \<lparr>entries = [], queue = []\<rparr>
            ([text_message ''3EB0A0''] @ [text_message ''3EB0A1'']))
            ''628123@s.whatsapp.net'') = Some (Some 2)"
  using messages_upsert_effect [of "text_message ''3EB0A1''" "''628123@s.whatsapp.net''"
      "''3EB0A1''" "\<lparr>entries = [], queue = []\<rparr>" "[text_message ''3EB0A0'']"]
  by (simp add: unread_after_first_message) (simp add: text_message_def)

section \<open>Properties of the blocklist handler\<close>

lemma set_blocklist_add: "set (blocklist_add existing bl) = set existing \<union> set bl"
  unfolding blocklist_add_def
  by (induction bl arbitrary: existing) auto

lemma distinct_blocklist_add: "distinct existing \<Longrightarrow> distinct (blocklist_add existing bl)"
  unfolding blocklist_add_def
  by (induction bl arbitrary: existing) auto

lemma blocklist_add_present: "set bl \<subseteq> set existing \<Longrightarrow> blocklist_add existing bl = existing"
  unfolding blocklist_add_def
  by (induction bl arbitrary: existing) auto

lemma getBlocklist_setBlocklist [simp]: "getBlocklist (setBlocklist s l) = l"
  by (simp add: getBlocklist_def setBlocklist_def get_atomicSet)

lemma getBlocklist_enqueueEvent [simp]: "getBlocklist (enqueueEvent s n p) = getBlocklist s"
  by (simp add: getBlocklist_def)

lemma getBlocklist_update_add:
  "getBlocklist (blocklist_update s bl ''add'') = blocklist_add (getBlocklist s) bl"
  by (simp add: blocklist_update_def)

lemma getBlocklist_update_remove:
  "getBlocklist (blocklist_update s bl ''remove'') = filter (\<lambda>jid. jid \<notin> set bl) (getBlocklist s)"
  by (simp add: blocklist_update_def)

text \<open>
  C6. Whatever the blocklist held before, after \<open>blocklist.update\<close> with \<open>add = [A, B]\<close>
  and then with \<open>remove = [A]\<close> (\<open>A\<close> and \<open>B\<close> being two identifiers) the blocklist read
  back contains \<open>B\<close> and not \<open>A\<close>. Adding is a union that creates no duplicate and is
  idempotent; removing filters the identifiers out.
\<close>

theorem blocklist_add_then_remove:
  assumes "A \<noteq> B"
  shows "B \<in> set (getBlocklist (blocklist_update (blocklist_update s [A, B] ''add'') [A] ''remove''))
     \<and> A \<notin> set (getBlocklist (blocklist_update (blocklist_update s [A, B] ''add'') [A] ''remove''))
     \<and> set (getBlocklist (blocklist_update s bl ''add'')) = set (getBlocklist s) \<union> set bl
     \<and> (distinct (getBlocklist s) \<longrightarrow> distinct (getBlocklist (blocklist_update s bl ''add'')))
     \<and> getBlocklist (blocklist_update (blocklist_update s bl ''add'') bl ''add'')
         = getBlocklist (blocklist_update s bl ''add'')
     \<and> getBlocklist (blocklist_update s bl ''remove'')
         = filter (\<lambda>jid. jid \<notin> set bl) (getBlocklist s)"
  using assms
  by (simp add: getBlocklist_update_add getBlocklist_update_remove set_blocklist_add
      distinct_blocklist_add blocklist_add_present)

theorem blocklist_add_then_remove_witness:
  "''b@s.whatsapp.net'' \<in> set (getBlocklist (blocklist_update (blocklist_update
        (setBlocklist \<lparr>entries = [], queue = []\<rparr> [''a@s.whatsapp.net'', ''c@s.whatsapp.net''])
        [''a@s.whatsapp.net'', ''b@s.whatsapp.net''] ''add'') [''a@s.whatsapp.net''] ''remove''))
   \<and> ''a@s.whatsapp.net'' \<notin> set (getBlocklist (blocklist_update (blocklist_update
        (setBlocklist \<lparr>entries = [], queue = []\<rparr> [''a@s.whatsapp.net'', ''c@s.whatsapp.net''])
        [''a@s.whatsapp.net'', ''b@s.whatsapp.net''] ''add'') [''a@s.whatsapp.net''] ''remove''))
   \<and> distinct (getBlocklist (blocklist_update
        (setBlocklist \<lparr>entries = [], queue = []\<rparr> [''a@s.whatsapp.net'', ''c@s.whatsapp.net''])
        [''a@s.whatsapp.net'', ''b@s.whatsapp.net''] ''add''))"
  using blocklist_add_then_remove [of "''a@s.whatsapp.net''" "''b@s.whatsapp.net''"
      "setBlocklist \<lparr>entries = [], queue = []\<rparr> [''a@s.whatsapp.net'', ''c@s.whatsapp.net'']"
      "[''a@s.whatsapp.net'', ''b@s.whatsapp.net'']"]
  by simp

section \<open>The handlers and the identity normalizer\<close>

text \<open>
  C4, evaluated. A \<open>messages.upsert\<close> event for the chat \<open>1234567890:7@s.whatsapp.net\<close>,
  whose normal form is \<open>1234567890@s.whatsapp.net\<close>, writes the message and the chat
  entity under keys built from the identifier as received; no chat entity exists under
  the normal form. A \<open>chats.delete\<close> event for the same identifier leaves the chat
  entity stored under the normal form in place.
\<close>

theorem handlers_use_raw_identifier:
  "decodeJid (Some ''1234567890:7@s.whatsapp.net'') = Some ''1234567890@s.whatsapp.net''
   \<and> map fst (entries (messages_upsert \<lparr>entries = [], queue = []\<rparr>
         [(text_message ''3EB0A1'')\<lparr>key_remoteJid := Some ''1234567890:7@s.whatsapp.net''\<rparr>]))
       = [''o3din:message:1234567890:7@s.whatsapp.net:3EB0A1'',
          ''o3din:chat:1234567890:7@s.whatsapp.net'']
   \<and> getChat (messages_upsert \<lparr>entries = [], queue = []\<rparr>
         [(text_message ''3EB0A1'')\<lparr>key_remoteJid := Some ''1234567890:7@s.whatsapp.net''\<rparr>])
         ''1234567890@s.whatsapp.net'' = None
   \<and> getChat (chats_delete
         (setChat \<lparr>entries = [], queue = []\<rparr> ''1234567890@s.whatsapp.net''
            (new_chat ''1234567890@s.whatsapp.net''))
         [''1234567890:7@s.whatsapp.net'']) ''1234567890@s.whatsapp.net''
       = Some (new_chat ''1234567890@s.whatsapp.net'')"
  by code_simp

section \<open>Properties of \<open>pushMessage\<close>\<close>

lemma length_Object_keys: "length (Object_keys obj) = length obj"
  using sum_length_filter_compl [of is_array_index "map fst obj"]
  by (simp add: Object_keys_def Let_def)

lemma Object_keys_plain:
  "\<forall>k\<in>set (map fst obj). \<not> is_array_index k \<Longrightarrow> Object_keys obj = map fst obj"
proof -
  assume a: "\<forall>k\<in>set (map fst obj). \<not> is_array_index k"
  then have "filter is_array_index (map fst obj) = []"
    and "filter (\<lambda>k. \<not> is_array_index k) (map fst obj) = map fst obj"
    by (simp_all add: filter_empty_conv filter_id_conv)
  then show ?thesis by (simp add: Object_keys_def Let_def)
qed

lemma delete_first_keys:
  "distinct (map fst obj) \<Longrightarrow>
   foldl (\<lambda>obj k. AList.delete k obj) obj (take j (map fst obj)) = drop j obj"
proof (induction obj arbitrary: j)
  case Nil
  then show ?case by simp
next
  case (Cons e obj)
  show ?case
  proof (cases j)
    case 0
    then show ?thesis by simp
  next
    case (Suc i)
    obtain k v where e: "e = (k, v)" by (cases e)
    from Cons.prems have "k \<notin> fst ` set obj" and "distinct (map fst obj)"
      by (simp_all add: e)
    with Cons.IH [of i] show ?thesis
      by (simp add: Suc e delete_head_fresh)
  qed
qed

lemma trim_messages_small: "length msgs \<le> 20 \<Longrightarrow> trim_messages msgs = msgs"
  by (simp add: trim_messages_def length_Object_keys)

lemma trim_messages_large:
  assumes "20 < length msgs" and "distinct (map fst msgs)"
    and "\<forall>k\<in>set (map fst msgs). \<not> is_array_index k"
  shows "trim_messages msgs = drop (length msgs - 15) msgs"
  using assms
  by (simp add: trim_messages_def Object_keys_plain delete_first_keys)

lemma chat_key_inject [simp]: "REDIS_PREFIX @ x = REDIS_PREFIX @ y \<longleftrightarrow> x = y"
  by simp

lemma getChat_setChat: "getChat (setChat s k c) k' = (if k' = k then Some c else getChat s k')"
  by (simp add: getChat_def setChat_def get_atomicSet)

lemma getChat_mutate_stored:
  "getChat (mutate_stored s k c) k' = (if k' = k then Some c else getChat s k')"
  by (simp add: getChat_def mutate_stored_def MemoryStore_get_def update_conv')

lemma messages_fetch_metadata [simp]: "messages (fetch_metadata env c cd) = messages cd"
  by (simp add: fetch_metadata_def split: option.splits)

lemma cache_quoted_elsewhere:
  assumes "quoted_chat m t c \<noteq> Some c"
  shows "snd (cache_quoted env s c found cd m t) = cd"
    and "getChat (fst (cache_quoted env s c found cd m t)) c = getChat s c"
proof -
  show "snd (cache_quoted env s c found cd m t) = cd"
    using assms
    by (auto simp: cache_quoted_def Let_def split: option.splits)
  show "getChat (fst (cache_quoted env s c found cd m t)) c = getChat s c"
    using assms
    by (auto simp: cache_quoted_def Let_def getChat_setChat getChat_mutate_stored
        split: option.splits)
qed

lemma update_names_window:
  "messages (snd (update_names env s c cd m)) = messages cd"
  by (auto simp: update_names_def Let_def split: option.splits)

lemma message_type_content: "message_type m = Some t \<Longrightarrow> message m \<noteq> None"
proof
  assume t: "message_type m = Some t" and "message m = None"
  then have "message_type m = None"
    by (simp add: message_type_def Object_keys_def)
  with t show False by simp
qed

lemma store_in_window_own:
  assumes "t \<noteq> ''senderKeyDistributionMessage''" and "\<not> sender_fromMe env c m"
    and "message m \<noteq> None" and "messageStubType m \<noteq> Some CIPHERTEXT"
    and "truthy (key_id m)" and "key_id m \<noteq> Some ''__proto__''"
  shows "own (messages_or_empty (store_in_window env c cd m t))
         = trim_messages (AList.update (message_id m) (clean_message m) (own (messages_or_empty cd)))"
  using assms
  by (auto simp: store_in_window_def Let_def assign_message_def messages_or_empty_def
      message_id_def truthy_def split: option.splits)

lemma push_task_window:
  assumes "window_message env c m"
  shows "chat_window (push_task env s m) c
         = trim_messages (AList.update (message_id m) (clean_message m) (chat_window s c))"
proof -
  from assms obtain t where t: "message_type m = Some t" "t \<noteq> ''senderKeyDistributionMessage''"
    "quoted_chat m t c \<noteq> Some c"
    by (auto simp: window_message_def split: option.splits)
  from assms have c: "message_chat m = Some c" "\<not> isStatusJid c"
    and rest: "\<not> sender_fromMe env c m" "messageStubType m \<noteq> Some CIPHERTEXT"
      "truthy (key_id m)" "key_id m \<noteq> Some ''__proto__''"
    by (simp_all add: window_message_def)
  let ?cd0 = "case getChat s c of Some x \<Rightarrow> x | None \<Rightarrow> (chat_with_id c)\<lparr>isChats := Some True\<rparr>"
  let ?cd1 = "fetch_metadata env c ?cd0"
  let ?q = "cache_quoted env s c (getChat s c \<noteq> None) ?cd1 m t"
  let ?n = "update_names env (fst ?q) c (snd ?q) m"
  let ?cd4 = "store_in_window env c (snd ?n) m t"
  have task: "push_task env s m = setChat (fst ?n) c ?cd4"
    using t(1) c by (simp add: push_task_def Let_def split_beta)
  have w0: "own (messages_or_empty ?cd0) = chat_window s c"
    by (simp add: chat_window_def messages_or_empty_def chat_with_id_def empty_messages_def
        split: option.splits)
  have "messages (snd ?n) = messages ?cd0"
    using cache_quoted_elsewhere(1) [OF t(3), of env s "getChat s c \<noteq> None" ?cd1]
    by (simp add: update_names_window)
  then have w3: "own (messages_or_empty (snd ?n)) = chat_window s c"
    using w0 by (simp add: messages_or_empty_def)
  have "chat_window (push_task env s m) c = own (messages_or_empty ?cd4)"
    by (simp add: task chat_window_def getChat_setChat)
  also have "\<dots> = trim_messages (AList.update (message_id m) (clean_message m)
                      (own (messages_or_empty (snd ?n))))"
    by (rule store_in_window_own
        [OF t(2) rest(1) message_type_content [OF t(1)] rest(2) rest(3) rest(4)])
  finally show ?thesis
    by (simp only: w3)
qed

lemma push_each_room:
  "\<forall>m\<in>set ms. window_message env c m \<Longrightarrow>
   distinct (map fst (chat_window s c) @ map message_id ms) \<Longrightarrow>
   length (chat_window s c) + length ms \<le> 20 \<Longrightarrow>
   chat_window (push_each env s ms) c = chat_window s c @ map window_entry ms"
proof (induction ms arbitrary: s)
  case Nil
  then show ?case by (simp add: push_each_def)
next
  case (Cons m ms)
  from Cons.prems have fresh: "message_id m \<notin> fst ` set (chat_window s c)"
    by auto
  from Cons.prems have "window_message env c m" by simp
  then have w: "chat_window (push_task env s m) c = chat_window s c @ [window_entry m]"
    using Cons.prems(3) fresh
    by (simp add: push_task_window update_fresh trim_messages_small window_entry_def)
  from Cons.prems have "\<forall>m\<in>set ms. window_message env c m"
    and "distinct (map fst (chat_window (push_task env s m) c) @ map message_id ms)"
    and "length (chat_window (push_task env s m) c) + length ms \<le> 20"
    by (auto simp: w window_entry_def)
  from Cons.IH [OF this] show ?case
    by (simp add: w push_each_def)
qed

lemma push_each_append:
  "push_each env s (xs @ ys) = push_each env (push_each env s xs) ys"
  by (simp add: push_each_def)

lemma set_Object_keys: "set (Object_keys obj) = fst ` set obj"
  by (auto simp: Object_keys_def Let_def)

lemma distinct_Object_keys: "distinct (map fst obj) \<Longrightarrow> distinct (Object_keys obj)"
  by (auto simp: Object_keys_def Let_def)

lemma keys_delete: "fst ` set (AList.delete k obj) = fst ` set obj - {k}"
  using delete_keys [of k obj] by (metis set_map set_removeAll)

lemma length_delete_present:
  "distinct (map fst obj) \<Longrightarrow> k \<in> fst ` set obj \<Longrightarrow>
   Suc (length (AList.delete k obj)) = length obj"
proof (induction obj)
  case Nil
  then show ?case by simp
next
  case (Cons p obj)
  obtain k' v where p: "p = (k', v)" by (cases p)
  show ?case
  proof (cases "k' = k")
    case True
    with Cons.prems have "k \<notin> fst ` set obj"
      by (simp add: p)
    then show ?thesis
      by (simp add: p True delete_head_fresh)
  next
    case False
    with Cons.prems have "k \<in> fst ` set obj" and "distinct (map fst obj)"
      by (auto simp: p)
    with Cons.IH False show ?thesis
      by (simp add: p)
  qed
qed

lemma length_delete_keys:
  "distinct (map fst obj) \<Longrightarrow> distinct ks \<Longrightarrow> set ks \<subseteq> fst ` set obj \<Longrightarrow>
   length (foldl (\<lambda>obj k. AList.delete k obj) obj ks) + length ks = length obj
   \<and> distinct (map fst (foldl (\<lambda>obj k. AList.delete k obj) obj ks))"
proof (induction ks arbitrary: obj)
  case Nil
  then show ?case by simp
next
  case (Cons k ks)
  from Cons.prems have k: "k \<in> fst ` set obj" and ks: "distinct ks" "k \<notin> set ks"
    "set ks \<subseteq> fst ` set obj"
    by auto
  have d: "distinct (map fst (AList.delete k obj))"
    using Cons.prems(1) by (simp add: distinct_delete)
  have "set ks \<subseteq> fst ` set (AList.delete k obj)"
    using ks by (auto simp: keys_delete)
  from Cons.IH [OF d ks(1) this] length_delete_present [OF Cons.prems(1) k]
  show ?case by simp
qed

text \<open>
  Whatever the keys are, trimming leaves at most 20 entries, and exactly 15 when it
  found more than 20.
\<close>

lemma trim_messages_bounded:
  assumes "distinct (map fst msgs)"
  shows "length (trim_messages msgs) \<le> 20
         \<and> (20 < length msgs \<longrightarrow> length (trim_messages msgs) = 15)
         \<and> distinct (map fst (trim_messages msgs))"
proof (cases "20 < length msgs")
  case True
  let ?ks = "take (length msgs - 15) (Object_keys msgs)"
  have "distinct ?ks"
    using assms by (simp add: distinct_Object_keys)
  moreover have "set ?ks \<subseteq> fst ` set msgs"
    using set_take_subset [of "length msgs - 15" "Object_keys msgs"]
    by (simp add: set_Object_keys)
  ultimately have sum: "length (foldl (\<lambda>obj k. AList.delete k obj) msgs ?ks) + length ?ks
                        = length msgs"
    and dist: "distinct (map fst (foldl (\<lambda>obj k. AList.delete k obj) msgs ?ks))"
    using length_delete_keys [OF assms, of ?ks] by blast+
  have "length ?ks = length msgs - 15"
    by (simp add: length_Object_keys)
  with sum True have "length (foldl (\<lambda>obj k. AList.delete k obj) msgs ?ks) = 15"
    by linarith
  with True dist show ?thesis
    by (simp add: trim_messages_def length_Object_keys Let_def)
next
  case False
  with assms show ?thesis
    by (simp add: trim_messages_def length_Object_keys Let_def)
qed

lemma push_task_bounded:
  assumes "window_message env c m"
    and "distinct (map fst (chat_window s c))"
  shows "distinct (map fst (chat_window (push_task env s m) c))
         \<and> length (chat_window (push_task env s m) c) \<le> 20"
proof -
  let ?new = "AList.update (message_id m) (clean_message m) (chat_window s c)"
  have "distinct (map fst ?new)"
    using assms(2) by (simp add: distinct_update)
  from trim_messages_bounded [OF this]
  have "length (trim_messages ?new) \<le> 20" and "distinct (map fst (trim_messages ?new))"
    by blast+
  then show ?thesis
    by (simp add: push_task_window [OF assms(1)])
qed

lemma push_each_bounded:
  "\<forall>m\<in>set ms. window_message env c m \<Longrightarrow>
   distinct (map fst (chat_window s c)) \<Longrightarrow> length (chat_window s c) \<le> 20 \<Longrightarrow>
   distinct (map fst (chat_window (push_each env s ms) c))
   \<and> length (chat_window (push_each env s ms) c) \<le> 20"
  unfolding push_each_def
proof (induction ms arbitrary: s)
  case Nil
  then show ?case by simp
next
  case (Cons m ms)
  from Cons.prems have "window_message env c m" and rest: "\<forall>m\<in>set ms. window_message env c m"
    by simp_all
  from push_task_bounded [OF this(1) Cons.prems(2)] Cons.IH [OF rest, of "push_task env s m"]
  show ?case by simp
qed

lemma push_25_window:
  assumes len: "length ms = 25"
    and ok: "\<forall>m\<in>set ms. window_message env c m \<and> \<not> is_array_index (message_id m)"
    and dist: "distinct (map message_id ms)"
    and empty: "chat_window s c = []"
  shows "chat_window (push_each env s ms) c = map window_entry (drop 6 ms)
         \<and> length (chat_window (push_each env s ms) c) = 19
         \<and> chat_window (push_each env s (take 20 ms)) c = map window_entry (take 20 ms)
         \<and> chat_window (push_each env s (take 21 ms)) c = map window_entry (drop 6 (take 21 ms))"
proof -
  let ?a = "take 20 ms" and ?m = "ms ! 20" and ?b = "drop 21 ms"
  have "ms = take 20 ms @ ms ! 20 # drop (Suc 20) ms"
    using len by (intro id_take_nth_drop) simp
  then have split: "ms = ?a @ ?m # ?b"
    by simp
  have "take (Suc 20) ms = take 20 ms @ [ms ! 20]"
    using len by (intro take_Suc_conv_app_nth) simp
  then have t21: "take 21 ms = ?a @ [?m]"
    by simp
  have in_a: "\<forall>m\<in>set ?a. window_message env c m"
    and in_b: "\<forall>m\<in>set ?b. window_message env c m"
    using ok by (auto dest: in_set_takeD in_set_dropD)
  have m_ok: "window_message env c ?m" "\<not> is_array_index (message_id ?m)"
    using ok len by simp_all
  have dist_a: "distinct (map message_id ?a)"
    using dist by (simp add: take_map [symmetric])
  \<comment> \<open>the first twenty messages fill the window\<close>
  have wa: "chat_window (push_each env s ?a) c = map window_entry ?a"
    using push_each_room [of ?a env c s] in_a dist_a empty len by simp
  \<comment> \<open>the twenty-first exceeds the cap, and the six oldest go\<close>
  have keys21: "map fst (map window_entry (take 21 ms)) = map message_id (take 21 ms)"
    by (simp add: window_entry_def comp_def)
  have dist21: "distinct (map message_id (take 21 ms))"
    using dist by (simp add: take_map [symmetric])
  have fresh: "message_id ?m \<notin> fst ` set (map window_entry ?a)"
    using dist21 by (auto simp: t21 window_entry_def image_iff)
  have plain21: "\<forall>k\<in>set (map message_id (take 21 ms)). \<not> is_array_index k"
    using ok by (auto dest: in_set_takeD)
  have "chat_window (push_task env (push_each env s ?a) ?m) c
        = trim_messages (map window_entry ?a @ [window_entry ?m])"
    using m_ok(1) fresh
    by (simp add: push_task_window wa update_fresh window_entry_def)
  also have "map window_entry ?a @ [window_entry ?m] = map window_entry (take 21 ms)"
    by (simp add: t21)
  also have "trim_messages (map window_entry (take 21 ms))
             = drop (length (map window_entry (take 21 ms)) - 15) (map window_entry (take 21 ms))"
    using len dist21 plain21
    by (intro trim_messages_large) (simp_all add: keys21 del: map_map)
  also have "\<dots> = map window_entry (drop 6 (take 21 ms))"
    using len by (simp add: drop_map)
  finally have w21: "chat_window (push_task env (push_each env s ?a) ?m) c
                     = map window_entry (drop 6 (take 21 ms))" .
  have p21: "push_each env s (take 21 ms) = push_task env (push_each env s ?a) ?m"
    by (simp add: t21 push_each_def)
  \<comment> \<open>the last four find room\<close>
  have "distinct (map message_id (drop 6 ms))"
    using dist by (simp add: drop_map [symmetric])
  moreover have parts: "drop 6 ms = drop 6 (take 21 ms) @ ?b"
  proof -
    have "drop 6 (xs @ ys) = drop 6 xs @ ys" if "6 \<le> length xs" for xs ys :: "wa_message list"
      using that by simp
    from this [of "take 21 ms" ?b] len show ?thesis by simp
  qed
  ultimately have dist_rest: "distinct (map fst (map window_entry (drop 6 (take 21 ms)))
                                @ map message_id ?b)"
    by (simp add: window_entry_def comp_def)
  have "chat_window (push_each env (push_each env s (take 21 ms)) ?b) c
        = map window_entry (drop 6 (take 21 ms)) @ map window_entry ?b"
    using push_each_room [of ?b env c "push_each env s (take 21 ms)"] in_b dist_rest len
    by (simp add: p21 w21)
  moreover have "push_each env s ms = push_each env (push_each env s (take 21 ms)) ?b"
    using push_each_append [of env s "take 21 ms" ?b] by simp
  moreover have "map window_entry (drop 6 (take 21 ms)) @ map window_entry ?b
                 = map window_entry (drop 6 ms)"
    using parts by (metis map_append)
  ultimately have final: "chat_window (push_each env s ms) c = map window_entry (drop 6 ms)"
    by simp
  with wa w21 p21 len show ?thesis by simp
qed

text \<open>
  C1 (as amended). Take 25 messages of one chat, which is not the status broadcast and
  whose window in the store is empty. Let each message have content of a kind other
  than the sender-key distribution, be neither the bot's own nor a ciphertext stub, and
  quote no message that is cached under that same chat. Let their identifiers be
  non-empty and distinct, none of them \<open>__proto__\<close> or an array index. Let each message
  be passed to \<open>conn.pushMessage\<close> in a call of its own, made once the queue has finished
  the task of the call before, with nothing else writing the store meanwhile. Then
  exactly 19 messages are left in the window of the chat: the 19 pushed last, in the
  order pushed. Up to the twentieth message nothing is evicted; the twenty-first
  exceeds the cap of 20 and the window is cut down to the 15 newest, the oldest six
  going; the last four find room. At no point does the window hold more than 20.
\<close>

theorem push_25_messages:
  assumes len: "length ms = 25"
    and ok: "\<forall>m\<in>set ms. window_message env c m \<and> \<not> is_array_index (message_id m)"
    and dist: "distinct (map message_id ms)"
    and empty: "chat_window s c = []"
  shows "chat_window (push_each env s ms) c = map window_entry (drop 6 ms)
         \<and> length (chat_window (push_each env s ms) c) = 19
         \<and> chat_window (push_each env s (take 20 ms)) c = map window_entry (take 20 ms)
         \<and> chat_window (push_each env s (take 21 ms)) c = map window_entry (drop 6 (take 21 ms))
         \<and> (\<forall>n. length (chat_window (push_each env s (take n ms)) c) \<le> 20)"
proof -
  from len ok dist empty
  have "chat_window (push_each env s ms) c = map window_entry (drop 6 ms)
        \<and> length (chat_window (push_each env s ms) c) = 19
        \<and> chat_window (push_each env s (take 20 ms)) c = map window_entry (take 20 ms)
        \<and> chat_window (push_each env s (take 21 ms)) c = map window_entry (drop 6 (take 21 ms))"
    by (rule push_25_window)
  moreover have "length (chat_window (push_each env s (take n ms)) c) \<le> 20" for n
  proof -
    have "\<forall>m\<in>set (take n ms). window_message env c m"
      using ok by (auto dest: in_set_takeD)
    from push_each_bounded [OF this, of s] empty show ?thesis by simp
  qed
  ultimately show ?thesis by blast
qed

lemma example_messages_enter_window:
  "\<forall>m\<in>set (map (\<lambda>ch. text_message [CHR ''M'', ch]) ''ABCDEFGHIJKLMNOPQRSTUVWXY'').
     window_message example_env ''628123@s.whatsapp.net'' m \<and> \<not> is_array_index (message_id m)"
  by code_simp

theorem push_25_messages_witness:
  "chat_window (push_each example_env \<lparr>entries = [], queue = []\<rparr>
      (map (\<lambda>ch. text_message [CHR ''M'', ch]) ''ABCDEFGHIJKLMNOPQRSTUVWXY''))
      ''628123@s.whatsapp.net''
   = map window_entry (drop 6 (map (\<lambda>ch. text_message [CHR ''M'', ch]) ''ABCDEFGHIJKLMNOPQRSTUVWXY''))
   \<and> length (chat_window (push_each example_env \<lparr>entries = [], queue = []\<rparr>
      (map (\<lambda>ch. text_message [CHR ''M'', ch]) ''ABCDEFGHIJKLMNOPQRSTUVWXY''))
      ''628123@s.whatsapp.net'') = 19"
proof -
  let ?ms = "map (\<lambda>ch. text_message [CHR ''M'', ch]) ''ABCDEFGHIJKLMNOPQRSTUVWXY''"
  have len: "length ?ms = 25"
    by simp
  have dist: "distinct (map message_id ?ms)"
    by (simp add: text_message_def message_id_def)
  have empty: "chat_window \<lparr>entries = [], queue = []\<rparr> ''628123@s.whatsapp.net'' = []"
    by (simp add: chat_window_def getChat_def MemoryStore_get_def)
  from push_25_messages [OF len example_messages_enter_window dist empty] show ?thesis
    by blast
qed

text \<open>
  C1 as stated fails: 25 messages, pushed one after the other as above, leave 19 in the
  window, not 15. The window is cut to 15 only at the moment it exceeds 20, and grows
  again afterwards.
\<close>

theorem push_25_messages_counterexample:
  "map fst (chat_window (push_each example_env \<lparr>entries = [], queue = []\<rparr>
      (map (\<lambda>ch. text_message [CHR ''M'', ch]) ''ABCDEFGHIJKLMNOPQRSTUVWXY''))
      ''628123@s.whatsapp.net'')
   = map (\<lambda>ch. [CHR ''M'', ch]) ''GHIJKLMNOPQRSTUVWXY''
   \<and> length (chat_window (push_each example_env \<lparr>entries = [], queue = []\<rparr>
      (map (\<lambda>ch. text_message [CHR ''M'', ch]) ''ABCDEFGHIJKLMNOPQRSTUVWXY''))
      ''628123@s.whatsapp.net'') \<noteq> 15"
  by code_simp

text \<open>
  Why the identifiers must not be array indices: \<open>Object.keys\<close> lists such keys first,
  in numeric order, so the trimming loop deletes the numerically smallest and not the
  oldest. Pushing the identifiers 25 down to 5 evicts 10 down to 5, the six newest.
\<close>

lemma push_numeric_identifiers:
  "Object_keys (chat_window (push_each example_env \<lparr>entries = [], queue = []\<rparr>
      (map text_message [''25'', ''24'', ''23'', ''22'', ''21'', ''20'', ''19'', ''18'', ''17'',
         ''16'', ''15'', ''14'', ''13'', ''12'', ''11'', ''10'', ''9'', ''8'', ''7'', ''6'', ''5'']))
      ''628123@s.whatsapp.net'')
   = [''11'', ''12'', ''13'', ''14'', ''15'', ''16'', ''17'', ''18'', ''19'', ''20'', ''21'',
      ''22'', ''23'', ''24'', ''25'']"
  by code_simp

text \<open>
  Why the identifier must not be \<open>__proto__\<close>: the assignment replaces the prototype of
  \<open>messages\<close> and no message enters the window.
\<close>

lemma push_proto_identifier:
  "map_option messages
     (getChat (push_task example_env \<lparr>entries = [], queue = []\<rparr> (text_message ''__proto__''))
        ''628123@s.whatsapp.net'')
   = Some (Some \<lparr>own = [], proto = Some (text_message ''__proto__'')\<rparr>)"
  by code_simp

text \<open>
  Why the chat must not be the status broadcast, and the message must have content
  keys: the task returns before it reads the store.
\<close>

lemma push_task_returns_early:
  "message_type m = None \<or> message_chat m = None \<or> message_chat m = Some ''status@broadcast''
   \<Longrightarrow> push_task env s m = s"
  by (auto simp: push_task_def isStatusJid_def split: option.splits)

text \<open>
  Why the message must not quote into its own chat: with a store that hands out its
  objects, the quoted message is cached in the very \<open>messages\<close> object that is the
  window, and takes a place in it.
\<close>

lemma push_quoting_message:
  "map fst (chat_window
     (push_task example_env
        (push_task example_env \<lparr>entries = [], queue = []\<rparr> (text_message ''MA''))
        ((text_message ''MB'')\<lparr>message := Some [(''extendedTextMessage'',
            Payload ''yes'' None
              (Some (Context None None (Some ''Q1'')
                 (Some [(''conversation'', Payload ''old'' None None)]))))]\<rparr>))
     ''628123@s.whatsapp.net'')
   = [''MA'', ''Q1'', ''MB'']"
  by code_simp

end
